theory Spec2Isabelle
  imports Complex_Main "HOL-Library.Sublist" "HOL-Library.Product_Lexorder"
begin

section \<open>Data model\<close>

text \<open>
  The merged table of \<^verbatim>\<open>BI_Sales.py\<close> is a pandas data frame. A cell is missing
  (\<^verbatim>\<open>NaN\<close>, \<^verbatim>\<open>None\<close>, \<^verbatim>\<open>NaT\<close>), a number, a string or a timestamp. Numbers are
  float64 (or int64) in the source and exact reals here: rounding is outside the model.
  A timestamp is kept at day resolution as (year, month, day), ordered lexicographically.
  A row gives a cell for every column name; a frame is the list of its column names and
  the list of its rows, in order.
\<close>

type_synonym timestamp = "int \<times> nat \<times> nat"

datatype cell = Null | Num real | Str string | Stamp timestamp

type_synonym row = "string \<Rightarrow> cell"

record frame =
  columns :: "string list"
  rows :: "row list"

text \<open>
  The widgets of the sidebar, as the values they return to the script. A date input
  that starts from a range returns both dates, or a 1-tuple while only the first date
  of the range is picked.
\<close>

datatype date_pick = Picked2 timestamp timestamp | Picked1 timestamp

record ui_state =
  metric_choice :: string
  selected_brands :: "cell list"
  selected_categories :: "cell list"
  selected_regions :: "cell list"
  selected_class_codes :: "cell list"
  selected_family :: cell
  selected_item_value :: "cell option"
  date_range :: "timestamp list"
  forecast_horizon :: nat
  trend_mode :: string
  seasonal_mode :: string
  manual_growth_pct :: real
  training_selection :: date_pick

section \<open>Schema resolver\<close>

text \<open>\<^verbatim>\<open>str.lower\<close> on ASCII letters, and Python's substring test \<^verbatim>\<open>needle in hay\<close>.\<close>

definition lower_char :: "char \<Rightarrow> char" where
  "lower_char c =
     (case map_of (zip ''ABCDEFGHIJKLMNOPQRSTUVWXYZ'' ''abcdefghijklmnopqrstuvwxyz'') c of
        Some l \<Rightarrow> l
      | None \<Rightarrow> c)"

definition lower :: "string \<Rightarrow> string" where
  "lower s = map lower_char s"

fun contains :: "string \<Rightarrow> string \<Rightarrow> bool" where
  "contains needle [] = (needle = [])"
| "contains needle (c # cs) = (prefix needle (c # cs) \<or> contains needle cs)"

text \<open>\<^verbatim>\<open>next((c for c in merged.columns if ...), None)\<close> is \<^const>\<open>List.find\<close>.\<close>

definition brand_col :: "string list \<Rightarrow> string option" where
  "brand_col cols = List.find (\<lambda>c. contains ''brand'' (lower c)) cols"

definition category_col :: "string list \<Rightarrow> string option" where
  "category_col cols = List.find (\<lambda>c. contains ''category'' (lower c)) cols"

definition region_col :: "string list \<Rightarrow> string option" where
  "region_col cols = List.find (\<lambda>c. contains ''region'' (lower c)) cols"

definition class_code_col :: "string list \<Rightarrow> string option" where
  "class_code_col cols =
     List.find (\<lambda>c. lower c = ''class_code'' \<or> lower c = ''class code'') cols"

definition family_col :: "string list \<Rightarrow> string option" where
  "family_col cols = List.find (\<lambda>c. contains ''family'' (lower c)) cols"

definition item_col :: "string list \<Rightarrow> string option" where
  "item_col cols = (if ''ItemNumber'' \<in> set cols then Some ''ItemNumber'' else None)"

definition date_col_name :: "string list \<Rightarrow> string option" where
  "date_col_name cols = List.find (\<lambda>c. lower c = ''date'') cols"

text \<open>
  \<^verbatim>\<open>merged['_date_dt'] = pd.to_datetime(merged[date_col_name], errors='coerce')\<close>.
  A date cell that pandas parses is represented by its timestamp; every other cell is
  coerced to \<^verbatim>\<open>NaT\<close>. The parsing of date strings itself is pandas' and not modelled.
\<close>

definition to_datetime :: "cell \<Rightarrow> cell" where
  "to_datetime c = (case c of Stamp t \<Rightarrow> Stamp t | _ \<Rightarrow> Null)"

definition prepare_dates :: "frame \<Rightarrow> frame" where
  "prepare_dates merged =
     (case date_col_name (columns merged) of
        None \<Rightarrow> merged
      | Some d \<Rightarrow>
          \<lparr>columns = (if ''_date_dt'' \<in> set (columns merged) then columns merged
                      else columns merged @ [''_date_dt'']),
           rows = map (\<lambda>r. r(''_date_dt'' := to_datetime (r d))) (rows merged)\<rparr>)"

definition has_date_column :: "frame \<Rightarrow> bool" where
  "has_date_column merged = (date_col_name (columns merged) \<noteq> None)"

section \<open>Filter engine\<close>

text \<open>
  \<^verbatim>\<open>Series.isin(values)\<close> and \<^verbatim>\<open>==\<close> on a column: a missing cell is in no selection
  and equal to nothing.
\<close>

definition isin :: "cell \<Rightarrow> cell list \<Rightarrow> bool" where
  "isin c selected = (c \<noteq> Null \<and> c \<in> set selected)"

definition cell_eq :: "cell \<Rightarrow> cell \<Rightarrow> bool" where
  "cell_eq a b = (a \<noteq> Null \<and> b \<noteq> Null \<and> a = b)"

text \<open>
  The block written four times in the source, for brand, category, region and class
  code: \<^verbatim>\<open>if col: ... if selected: df_view = df_view[df_view[col].isin(selected)]\<close>.
\<close>

definition multiselect_stage :: "string option \<Rightarrow> cell list \<Rightarrow> row list \<Rightarrow> row list" where
  "multiselect_stage col selected view =
     (case col of
        None \<Rightarrow> view
      | Some c \<Rightarrow> if selected \<noteq> [] then filter (\<lambda>r. isin (r c) selected) view else view)"

definition family_stage :: "string option \<Rightarrow> cell \<Rightarrow> row list \<Rightarrow> row list" where
  "family_stage col sel view =
     (case col of
        None \<Rightarrow> view
      | Some c \<Rightarrow> if sel \<noteq> Str ''All'' then filter (\<lambda>r. cell_eq (r c) sel) view else view)"

text \<open>
  The item stage. The search box, the display labels and \<^verbatim>\<open>item_display_map\<close> only decide
  which item value the select box ends with; \<^const>\<open>selected_item_value\<close> is that value,
  \<open>None\<close> when the choice is \<^verbatim>\<open>"All"\<close> or the label has no entry in the map.
\<close>

definition item_stage :: "string option \<Rightarrow> cell option \<Rightarrow> row list \<Rightarrow> row list" where
  "item_stage col sel view =
     (case col of
        None \<Rightarrow> view
      | Some c \<Rightarrow>
          (case sel of None \<Rightarrow> view | Some v \<Rightarrow> filter (\<lambda>r. cell_eq (r c) v) view))"

definition notna_any :: "string \<Rightarrow> row list \<Rightarrow> bool" where
  "notna_any c rs = (\<exists>r \<in> set rs. r c \<noteq> Null)"

definition between :: "cell \<Rightarrow> timestamp \<Rightarrow> timestamp \<Rightarrow> bool" where
  "between c lo hi = (case c of Stamp t \<Rightarrow> lo \<le> t \<and> t \<le> hi | _ \<Rightarrow> False)"

definition date_stage :: "frame \<Rightarrow> timestamp list \<Rightarrow> row list \<Rightarrow> row list" where
  "date_stage merged picked view =
     (if has_date_column merged \<and> notna_any ''_date_dt'' (rows (prepare_dates merged)) then
        (case picked of
           [start_dt, end_dt] \<Rightarrow> filter (\<lambda>r. between (r ''_date_dt'') start_dt end_dt) view
         | _ \<Rightarrow> view)
      else view)"

text \<open>The seven stages in the order of the source, and the views they produce one after
  the other, starting from \<^verbatim>\<open>df_view = merged.copy()\<close>.\<close>

definition filter_stages :: "frame \<Rightarrow> ui_state \<Rightarrow> (row list \<Rightarrow> row list) list" where
  "filter_stages merged ui =
     (let cols = columns (prepare_dates merged) in
      [multiselect_stage (brand_col cols) (selected_brands ui),
       multiselect_stage (category_col cols) (selected_categories ui),
       multiselect_stage (region_col cols) (selected_regions ui),
       multiselect_stage (class_code_col cols) (selected_class_codes ui),
       family_stage (family_col cols) (selected_family ui),
       item_stage (item_col cols) (selected_item_value ui),
       date_stage merged (date_range ui)])"

fun run_stages :: "(row list \<Rightarrow> row list) list \<Rightarrow> row list \<Rightarrow> row list list" where
  "run_stages [] view = [view]"
| "run_stages (f # fs) view = view # run_stages fs (f view)"

definition stage_views :: "frame \<Rightarrow> ui_state \<Rightarrow> row list list" where
  "stage_views merged ui = run_stages (filter_stages merged ui) (rows (prepare_dates merged))"

definition df_view :: "frame \<Rightarrow> ui_state \<Rightarrow> row list" where
  "df_view merged ui = last (stage_views merged ui)"

section \<open>KPI aggregator\<close>

text \<open>
  \<^verbatim>\<open>Series.sum()\<close> skips missing cells; \<^verbatim>\<open>Series.nunique()\<close> counts the distinct
  values that are not missing. Metric columns hold numbers or missing cells.
\<close>

definition num_of :: "cell \<Rightarrow> real" where
  "num_of c = (case c of Num x \<Rightarrow> x | _ \<Rightarrow> 0)"

definition col_sum :: "string \<Rightarrow> row list \<Rightarrow> real" where
  "col_sum c rs = sum_list (map (\<lambda>r. num_of (r c)) rs)"

definition nunique :: "'a list \<Rightarrow> nat" where
  "nunique xs = length (remdups xs)"

definition notna :: "string \<Rightarrow> row list \<Rightarrow> cell list" where
  "notna c rs = filter (\<lambda>v. v \<noteq> Null) (map (\<lambda>r. r c) rs)"

definition stamps :: "string \<Rightarrow> row list \<Rightarrow> timestamp list" where
  "stamps c rs = List.map_filter (\<lambda>r. case r c of Stamp t \<Rightarrow> Some t | _ \<Rightarrow> None) rs"

definition to_period_M :: "timestamp \<Rightarrow> int \<times> nat" where
  "to_period_M t = (fst t, fst (snd t))"

definition month_start :: "timestamp \<Rightarrow> timestamp" where
  "month_start t = (fst t, fst (snd t), 1)"

text \<open>The metric options and the metric the radio button selects.\<close>

definition vol_val_options :: "string list \<Rightarrow> (string \<times> string \<times> string \<times> string) list" where
  "vol_val_options cols =
     (if ''qty_soldx'' \<in> set cols
      then [(''Volume (qty_soldx)'', ''qty_soldx'', ''qty_soldx sum'', ''Volume'')] else []) @
     (if ''sold_amount'' \<in> set cols
      then [(''Value (sold_amount)'', ''sold_amount'', ''sold_amount sum'', ''Value'')] else [])"

definition metric_col :: "string list \<Rightarrow> string \<Rightarrow> string option" where
  "metric_col cols choice =
     (if vol_val_options cols \<noteq> [] then
        map_option (\<lambda>opt. fst (snd opt)) (List.find (\<lambda>opt. fst opt = choice) (vol_val_options cols))
      else List.find (\<lambda>col. col \<in> set cols) [''qty_soldx'', ''sold_amount'', ''sales''])"

record kpis =
  total_qty :: real
  total_returns :: real
  total_sales :: real
  total_discount :: real
  returns_pct :: real
  discount_pct :: real
  kg_price :: real
  unique_items :: nat
  metric_total :: real
  metric_avg_per_item :: real
  months_in_view :: nat
  monthly_metric :: real
  monthly_qty :: real
  monthly_returns :: real
  monthly_sales :: real

definition kpi_aggregator :: "string list \<Rightarrow> string option \<Rightarrow> row list \<Rightarrow> kpis" where
  "kpi_aggregator cols mcol view =
     (let total_qty = (if ''qty_soldx'' \<in> set cols then col_sum ''qty_soldx'' view else 0);
          total_returns =
            (if ''qty_returnedx'' \<in> set cols then col_sum ''qty_returnedx'' view else 0);
          total_sales =
            (if ''sold_amount'' \<in> set cols then col_sum ''sold_amount'' view
             else if ''sales'' \<in> set cols then col_sum ''sales'' view
             else 0);
          total_discount = (if ''total_disc'' \<in> set cols then col_sum ''total_disc'' view else 0);
          returns_pct = (if total_qty \<noteq> 0 then total_returns / total_qty * 100 else 0);
          discount_pct = (if total_sales \<noteq> 0 then total_discount / total_sales * 100 else 0);
          kg_price = (if total_qty \<noteq> 0 then total_sales / total_qty else 0);
          unique_items =
            (case item_col cols of Some ic \<Rightarrow> nunique (notna ic view) | None \<Rightarrow> 0);
          metric_total =
            (case mcol of
               Some mc \<Rightarrow> if mc \<in> set cols then col_sum mc view else 0
             | None \<Rightarrow> 0);
          metric_avg_per_item =
            (if unique_items > 0 then metric_total / real unique_items else 0);
          months_in_view =
            (if ''_date_dt'' \<in> set cols \<and> notna_any ''_date_dt'' view
             then nunique (map to_period_M (stamps ''_date_dt'' view)) else 0);
          monthly_metric = (if months_in_view \<noteq> 0 then metric_total / real months_in_view else 0);
          monthly_qty = (if months_in_view \<noteq> 0 then total_qty / real months_in_view else 0);
          monthly_returns =
            (if months_in_view \<noteq> 0 then total_returns / real months_in_view else 0);
          monthly_sales = (if months_in_view \<noteq> 0 then total_sales / real months_in_view else 0)
      in \<lparr>total_qty = total_qty, total_returns = total_returns, total_sales = total_sales,
          total_discount = total_discount, returns_pct = returns_pct,
          discount_pct = discount_pct, kg_price = kg_price, unique_items = unique_items,
          metric_total = metric_total, metric_avg_per_item = metric_avg_per_item,
          months_in_view = months_in_view, monthly_metric = monthly_metric,
          monthly_qty = monthly_qty, monthly_returns = monthly_returns,
          monthly_sales = monthly_sales\<rparr>)"

section \<open>Grouped rollup\<close>

text \<open>
  \<^verbatim>\<open>groupby(key)[col].sum()\<close>: rows with a missing key are dropped, every other key gets the
  sum of the column over its rows. pandas lists the groups by ascending key; where the
  keys are cells the model lists each key once, in an order of its own, since every
  use below either sorts the groups again or looks them up by key.
\<close>

definition groupby_sum :: "(row \<Rightarrow> 'k option) \<Rightarrow> string \<Rightarrow> row list \<Rightarrow> ('k \<times> real) list" where
  "groupby_sum key c rs =
     map (\<lambda>k. (k, col_sum c (filter (\<lambda>r. key r = Some k) rs)))
       (remdups (List.map_filter key rs))"

definition cell_key :: "string \<Rightarrow> row \<Rightarrow> cell option" where
  "cell_key c r = (if r c = Null then None else Some (r c))"

text \<open>
  \<^verbatim>\<open>render_group_bar\<close>, up to the table it charts: group, total and percentage of the
  total of the groups shown. pandas does not fix the order of equal totals in
  \<^verbatim>\<open>sort_values\<close>; the model keeps them in group order.
\<close>

datatype rollup_out =
    RollupInfo string
  | Rollup "(cell \<times> real \<times> real) list"

definition render_group_bar :: "string list \<Rightarrow> string option \<Rightarrow> row list \<Rightarrow> string option \<Rightarrow> string \<Rightarrow> rollup_out" where
  "render_group_bar cols mcol view group_col group_label =
     (case group_col of
        None \<Rightarrow> RollupInfo (group_label @ '' column not available in the current dataset.'')
      | Some gc \<Rightarrow>
          if gc \<notin> set cols then
            RollupInfo (group_label @ '' column not available in the current dataset.'')
          else
            (case mcol of
               None \<Rightarrow> RollupInfo ''No numeric metric (qty_soldx, sold_amount, or sales) available for charting.''
             | Some mc \<Rightarrow>
                 (let grouped = filter (\<lambda>g. snd g \<noteq> 0) (groupby_sum (cell_key gc) mc view) in
                  if grouped = [] then
                    RollupInfo (''No data to display for '' @ lower group_label @ '' after applying filters.'')
                  else
                    (let sorted_groups = sort_key (\<lambda>g. - snd g) grouped;
                         total_value = sum_list (map snd sorted_groups)
                     in Rollup (map (\<lambda>g. (fst g, snd g,
                                   if total_value \<noteq> 0 then snd g / total_value * 100 else 0))
                                 sorted_groups)))))"

text \<open>
  The sections: region, sales channel and family, each when its column was resolved.
  With three sections the labels are fixed; with fewer the label is the first word of
  the section title.
\<close>

definition group_sections :: "string list \<Rightarrow> (string \<times> string) list" where
  "group_sections cols =
     (case region_col cols of Some c \<Rightarrow> if c \<in> set cols then [(''Region Performance'', c)] else [] | None \<Rightarrow> []) @
     (case class_code_col cols of Some c \<Rightarrow> if c \<in> set cols then [(''Sales Channel Performance'', c)] else [] | None \<Rightarrow> []) @
     (case family_col cols of Some c \<Rightarrow> if c \<in> set cols then [(''Family Performance'', c)] else [] | None \<Rightarrow> [])"

definition first_word :: "string \<Rightarrow> string" where
  "first_word s = takeWhile (\<lambda>c. c \<noteq> CHR '' '') (dropWhile (\<lambda>c. c = CHR '' '') s)"

datatype rollups_out =
    NoRollups
  | RollupsInfo string
  | Rollups "rollup_out list"

definition grouped_rollups :: "string list \<Rightarrow> string option \<Rightarrow> row list \<Rightarrow> rollups_out" where
  "grouped_rollups cols mcol view =
     (let sections = group_sections cols in
      if sections \<noteq> [] \<and> mcol \<noteq> None then
        (if length sections = 3 then
           Rollups (map (\<lambda>(s, group_label). render_group_bar cols mcol view (Some (snd s)) group_label)
                     (zip sections [''Region'', ''Sales Channel'', ''Family'']))
         else
           Rollups (map (\<lambda>s. render_group_bar cols mcol view (Some (snd s)) (first_word (fst s)))
                     sections))
      else if mcol = None then
        RollupsInfo ''Cannot build group charts because no qty_soldx, sold_amount, or sales columns were found.''
      else NoRollups)"

section \<open>ABC-XYZ classifier\<close>

text \<open>
  \<^verbatim>\<open>sort_values('metric_total', ascending=False)\<close>, then the rows with a positive total.
  pandas does not fix the order of equal totals; the model keeps them in group order.
\<close>

definition abc_source :: "string \<Rightarrow> string \<Rightarrow> row list \<Rightarrow> (cell \<times> real) list" where
  "abc_source ic mc view =
     filter (\<lambda>g. snd g > 0) (sort_key (\<lambda>g. - snd g) (groupby_sum (cell_key ic) mc view))"

fun cumsum :: "real \<Rightarrow> real list \<Rightarrow> real list" where
  "cumsum acc [] = []"
| "cumsum acc (x # xs) = (acc + x) # cumsum (acc + x) xs"

definition classify_abc :: "real \<Rightarrow> string" where
  "classify_abc pct = (if pct \<le> 80 then ''A'' else if pct \<le> 95 then ''B'' else ''C'')"

record abc_row =
  item_id :: cell
  item_total :: real
  cumulative_pct :: real
  ABC :: string

definition abc_table :: "(cell \<times> real) list \<Rightarrow> abc_row list" where
  "abc_table src =
     (let overall_total = sum_list (map snd src);
          pcts = map (\<lambda>c. c / overall_total * 100) (cumsum 0 (map snd src))
      in map (\<lambda>(g, pct). \<lparr>item_id = fst g, item_total = snd g, cumulative_pct = pct,
                           ABC = classify_abc pct\<rparr>) (zip src pcts))"

text \<open>
  XYZ: the metric per item and month, then per item the mean and the sample standard
  deviation (\<^verbatim>\<open>ddof=1\<close>, \<^verbatim>\<open>NaN\<close> for fewer than two values) of its monthly sums. The
  coefficient of variation is a float that may be \<^verbatim>\<open>inf\<close>.
\<close>

definition item_month_key :: "string \<Rightarrow> row \<Rightarrow> (cell \<times> timestamp) option" where
  "item_month_key ic r =
     (case r ''_date_dt'' of
        Stamp t \<Rightarrow> if r ic = Null then None else Some (r ic, month_start t)
      | _ \<Rightarrow> None)"

definition monthly_item :: "string \<Rightarrow> string \<Rightarrow> row list \<Rightarrow> ((cell \<times> timestamp) \<times> real) list" where
  "monthly_item ic mc view = groupby_sum (item_month_key ic) mc view"

definition mean :: "real list \<Rightarrow> real" where
  "mean xs = sum_list xs / real (length xs)"

definition std :: "real list \<Rightarrow> real option" where
  "std xs =
     (if length xs < 2 then None
      else Some (sqrt (sum_list (map (\<lambda>x. (x - mean xs)\<^sup>2) xs) / real (length xs - 1))))"

definition fillna :: "'a \<Rightarrow> 'a option \<Rightarrow> 'a" where
  "fillna d v = (case v of None \<Rightarrow> d | Some x \<Rightarrow> x)"

datatype xreal = Fin real | PInf

definition xle :: "xreal \<Rightarrow> real \<Rightarrow> bool" where
  "xle a b = (case a of Fin x \<Rightarrow> x \<le> b | PInf \<Rightarrow> False)"

definition classify_xyz :: "xreal \<Rightarrow> string" where
  "classify_xyz cv = (if xle cv 0.5 then ''X'' else if xle cv 1.0 then ''Y'' else ''Z'')"

record variability_row =
  var_item :: cell
  mean_metric :: real
  std_metric :: real
  cv :: xreal
  XYZ :: string

definition monthly_values :: "((cell \<times> timestamp) \<times> real) list \<Rightarrow> cell \<Rightarrow> real list" where
  "monthly_values mi k = map snd (filter (\<lambda>g. fst (fst g) = k) mi)"

definition variability_of :: "cell \<Rightarrow> real list \<Rightarrow> variability_row" where
  "variability_of k xs =
     (let mean_metric = mean xs;
          std_metric = fillna 0 (std xs);
          cv = (if mean_metric \<noteq> 0 then Fin (std_metric / mean_metric) else PInf)
      in \<lparr>var_item = k, mean_metric = mean_metric, std_metric = std_metric, cv = cv,
          XYZ = classify_xyz cv\<rparr>)"

definition variability :: "((cell \<times> timestamp) \<times> real) list \<Rightarrow> variability_row list" where
  "variability mi =
     map (\<lambda>k. variability_of k (monthly_values mi k)) (remdups (map (\<lambda>g. fst (fst g)) mi))"

definition xyz_source :: "string list \<Rightarrow> string \<Rightarrow> string \<Rightarrow> row list \<Rightarrow> variability_row list option" where
  "xyz_source cols ic mc view =
     (if ''_date_dt'' \<in> set cols \<and> notna_any ''_date_dt'' view then
        (let mi = monthly_item ic mc view in
         if mi \<noteq> [] then Some (variability mi) else None)
      else None)"

record class_row =
  abc_part :: abc_row
  cv_na :: "xreal option"
  XYZ_class :: string

text \<open>The left join of the XYZ table onto the ABC table; a missing XYZ is filled with Z.\<close>

definition classification_result :: "abc_row list \<Rightarrow> variability_row list option \<Rightarrow> class_row list" where
  "classification_result abc xyz =
     (case xyz of
        Some vs \<Rightarrow>
          map (\<lambda>a. case List.find (\<lambda>v. var_item v = item_id a) vs of
                      Some v \<Rightarrow> \<lparr>abc_part = a, cv_na = Some (cv v), XYZ_class = XYZ v\<rparr>
                    | None \<Rightarrow> \<lparr>abc_part = a, cv_na = None, XYZ_class = ''Z''\<rparr>) abc
      | None \<Rightarrow> map (\<lambda>a. \<lparr>abc_part = a, cv_na = None, XYZ_class = ''Z''\<rparr>) abc)"

datatype abcxyz_out =
    NoClassification
  | ClassInfo string
  | Classified "class_row list" bool

definition abc_xyz :: "string list \<Rightarrow> string option \<Rightarrow> row list \<Rightarrow> abcxyz_out" where
  "abc_xyz cols mcol view =
     (case (mcol, item_col cols) of
        (Some mc, Some ic) \<Rightarrow>
          if mc \<in> set cols \<and> ic \<in> set cols then
            (let src = abc_source ic mc view in
             if src \<noteq> [] then
               (if sum_list (map snd src) = 0 then
                  ClassInfo ''ABC-XYZ matrix unavailable because the current metric totals zero after filters.''
                else
                  (let xyz = xyz_source cols ic mc view
                   in Classified (classification_result (abc_table src) xyz) (xyz = None)))
             else ClassInfo ''Not enough item-level data after filters to compute ABC-XYZ classification.'')
          else NoClassification
      | _ \<Rightarrow> NoClassification)"

section \<open>Time-series forecaster\<close>

text \<open>
  The monthly series: the dated rows grouped by the first day of their month, summed
  and sorted by month.
\<close>

definition date_of :: "string list \<Rightarrow> row \<Rightarrow> cell" where
  "date_of cols r =
     (if ''_date_dt'' \<in> set cols then r ''_date_dt''
      else case date_col_name cols of Some d \<Rightarrow> to_datetime (r d) | None \<Rightarrow> Null)"

definition chart_df :: "string list \<Rightarrow> row list \<Rightarrow> row list" where
  "chart_df cols view = filter (\<lambda>r. date_of cols r \<noteq> Null) (map (\<lambda>r. r(''date'' := date_of cols r)) view)"

definition month_key :: "row \<Rightarrow> timestamp option" where
  "month_key r = (case r ''date'' of Stamp t \<Rightarrow> Some (month_start t) | _ \<Rightarrow> None)"

definition monthly :: "string \<Rightarrow> row list \<Rightarrow> (timestamp \<times> real) list" where
  "monthly mc chart = sort_key fst (groupby_sum month_key mc chart)"

text \<open>
  The training window (lines 1181 to 1189). A complete range gives two timestamps, swapped
  when reversed. While only one date of the range is picked the date input returns a
  1-tuple; the \<^verbatim>\<open>else\<close> branch passes the tuple itself to \<^verbatim>\<open>pd.to_datetime\<close>, so both
  ends are the same one-element \<^verbatim>\<open>DatetimeIndex\<close>, which is never swapped.
\<close>

datatype window = Window timestamp timestamp | HalfPicked timestamp

definition training_window :: "date_pick \<Rightarrow> window" where
  "training_window sel =
     (case sel of
        Picked2 training_start training_end \<Rightarrow>
          if training_start > training_end then Window training_end training_start
          else Window training_start training_end
      | Picked1 a \<Rightarrow> HalfPicked a)"

text \<open>
  The training series (lines 1191 to 1193). Against two timestamps the month column is
  compared point by point. Against a one-element index pandas compares element by
  element and raises \<^verbatim>\<open>ValueError: Lengths must match to compare\<close> unless the monthly
  series has exactly one point too. The error is outside every \<^verbatim>\<open>try\<close> and ends the run.
\<close>

datatype py_error = ValueError

definition monthly_training :: "(timestamp \<times> real) list \<Rightarrow> window \<Rightarrow> py_error + (timestamp \<times> real) list" where
  "monthly_training ms w =
     (case w of
        Window training_start training_end \<Rightarrow>
          Inr (filter (\<lambda>p. fst p \<ge> training_start \<and> fst p \<le> training_end) ms)
      | HalfPicked a \<Rightarrow>
          if length ms = 1 then Inr (filter (\<lambda>p. fst p \<ge> a \<and> fst p \<le> a) ms)
          else Inl ValueError)"

text \<open>
  The seasonal index. \<^verbatim>\<open>mean()\<close> skips missing cells and is \<^verbatim>\<open>NaN\<close> (here \<open>None\<close>)
  when nothing is left; arithmetic on \<^verbatim>\<open>NaN\<close> gives \<^verbatim>\<open>NaN\<close>, and \<^verbatim>\<open>NaN\<close> is truthy and
  different from 0.
\<close>

definition nums :: "cell list \<Rightarrow> real list" where
  "nums cs = List.map_filter (\<lambda>c. case c of Num x \<Rightarrow> Some x | _ \<Rightarrow> None) cs"

definition nan_mean :: "real list \<Rightarrow> real option" where
  "nan_mean xs = (if xs = [] then None else Some (mean xs))"

definition month_nums :: "row list \<Rightarrow> nat list" where
  "month_nums chart = sort (remdups (map (\<lambda>t. fst (snd t)) (stamps ''date'' chart)))"

definition seasonal_summary :: "string \<Rightarrow> row list \<Rightarrow> (nat \<times> real option) list" where
  "seasonal_summary mc chart =
     map (\<lambda>m. (m, nan_mean (nums (map (\<lambda>r. r mc)
                   (filter (\<lambda>r. case r ''date'' of Stamp t \<Rightarrow> fst (snd t) = m | _ \<Rightarrow> False) chart)))))
       (month_nums chart)"

datatype seasonal_out =
    SeasonalInfo string
  | SeasonalIndex "(nat \<times> real option \<times> real option) list"

definition seasonal_index :: "string \<Rightarrow> row list \<Rightarrow> seasonal_out" where
  "seasonal_index mc chart =
     (let summary = seasonal_summary mc chart in
      if summary \<noteq> [] then
        (let overall_mean = nan_mean (List.map_filter snd summary) in
         if overall_mean \<noteq> Some 0 then
           SeasonalIndex (map (\<lambda>(m, avg_metric).
              (m, avg_metric,
               case (avg_metric, overall_mean) of
                 (Some a, Some om) \<Rightarrow> Some (a / om)
               | _ \<Rightarrow> None)) summary)
         else SeasonalInfo ''Not enough variation to calculate a seasonal index for the current filters.'')
      else SeasonalInfo ''Not enough data to calculate a seasonal index for the current filters.'')"

text \<open>
  \<^verbatim>\<open>resample('MS').sum()\<close>: one point for every month from the first to the last of the
  series, 0 where the series has none. Months are counted from year 0.
\<close>

definition month_index :: "timestamp \<Rightarrow> int" where
  "month_index t = fst t * 12 + int (fst (snd t)) - 1"

definition index_month :: "int \<Rightarrow> timestamp" where
  "index_month i = (i div 12, nat (i mod 12) + 1, 1)"

definition resample_MS :: "(timestamp \<times> real) list \<Rightarrow> (timestamp \<times> real) list" where
  "resample_MS ts =
     (if ts = [] then []
      else map (\<lambda>i. (index_month i, sum_list (map snd (filter (\<lambda>p. month_index (fst p) = i) ts))))
             [month_index (fst (hd ts)) .. month_index (fst (last ts))])"

text \<open>
  The Holt-Winters model is statsmodels', not this repository's: it is a parameter. The
  environment is \<open>None\<close> when the import of statsmodels failed; otherwise it is the
  function from the resampled series, the trend and seasonal modes and the horizon to
  the projected values, \<open>None\<close> when fitting or forecasting raises.
\<close>

type_synonym smoothing = "(timestamp \<times> real) list \<Rightarrow> string \<Rightarrow> string \<Rightarrow> nat \<Rightarrow> real list option"

definition growth_override :: "real \<Rightarrow> real list \<Rightarrow> real list" where
  "growth_override pct forecast =
     (if pct \<noteq> 0 then
        (let growth_factor = 1 + pct / 100
         in map (\<lambda>v. v * growth_factor) forecast)
      else forecast)"

definition forecast_months :: "(timestamp \<times> real) list \<Rightarrow> nat \<Rightarrow> timestamp list" where
  "forecast_months ts h = map (\<lambda>k. index_month (month_index (fst (last ts)) + int k)) [1..<Suc h]"

datatype forecast_out =
    ForecastInfo string
  | ForecastWarning
  | Forecast "(timestamp \<times> real) list" "(timestamp \<times> real) list"

definition forecast_stage :: "smoothing option \<Rightarrow> ui_state \<Rightarrow> (timestamp \<times> real) list \<Rightarrow> forecast_out" where
  "forecast_stage ExponentialSmoothing ui training =
     (case ExponentialSmoothing of
        None \<Rightarrow> ForecastInfo ''Forecasts require the `statsmodels` package. Please add `statsmodels` to your Streamlit Cloud requirements file to enable this section.''
      | Some model \<Rightarrow>
          if length training \<ge> 12 then
            (let monthly_ts = resample_MS training in
             case model monthly_ts (trend_mode ui) (seasonal_mode ui) (forecast_horizon ui) of
               None \<Rightarrow> ForecastWarning
             | Some forecast \<Rightarrow>
                 Forecast monthly_ts
                   (zip (forecast_months monthly_ts (forecast_horizon ui))
                        (growth_override (manual_growth_pct ui) forecast)))
          else ForecastInfo ''Need at least 12 months in the selected historical window to build a forecast for the current filters.'')"

datatype trend_out =
    TrendInfo string
  | Trend "(timestamp \<times> real) list" seasonal_out forecast_out

text \<open>
  The trend section. The training series is computed before the trend chart, the
  seasonal index and the forecast are shown, so an error there leaves none of them.
\<close>

definition trend_section :: "smoothing option \<Rightarrow> string list \<Rightarrow> string option \<Rightarrow> ui_state \<Rightarrow> row list \<Rightarrow> py_error + trend_out" where
  "trend_section ExponentialSmoothing cols mcol ui view =
     (case mcol of
        None \<Rightarrow> Inr (TrendInfo ''Selected metric or date column not available, so the trend chart cannot be displayed.'')
      | Some mc \<Rightarrow>
          if mc \<in> set cols \<and> (''_date_dt'' \<in> set cols \<or> date_col_name cols \<noteq> None) then
            (let chart = chart_df cols view in
             if chart \<noteq> [] then
               (let ms = monthly mc chart in
                case monthly_training ms (training_window (training_selection ui)) of
                  Inl e \<Rightarrow> Inl e
                | Inr training \<Rightarrow>
                    Inr (Trend ms (seasonal_index mc chart)
                           (forecast_stage ExponentialSmoothing ui training)))
             else Inr (TrendInfo ''No valid date values available to plot for the current filters.''))
          else Inr (TrendInfo ''Selected metric or date column not available, so the trend chart cannot be displayed.''))"


section \<open>The script\<close>

text \<open>
  Everything from the metric radio button to the end of the script is the body of
  \<^verbatim>\<open>if 'sold_amount' in df_view.columns:\<close> (line 343): the filters, the KPI cards, the
  group charts, the classification and the trend section run only when the merged table
  has that column.
  \<open>None\<close> is the page with nothing of these on it. The trend section comes last: an
  error raised in it ends the run with everything before it already on the page.
\<close>

record dashboard =
  shown_view :: "row list"
  shown_kpis :: kpis
  shown_rollups :: rollups_out
  shown_classification :: abcxyz_out
  shown_trend :: "py_error + trend_out"

definition run_dashboard :: "smoothing option \<Rightarrow> frame \<Rightarrow> ui_state \<Rightarrow> dashboard option" where
  "run_dashboard ExponentialSmoothing merged ui =
     (let cols = columns (prepare_dates merged) in
      if ''sold_amount'' \<in> set cols then
        (let mcol = metric_col cols (metric_choice ui);
             v = df_view merged ui
         in Some \<lparr>shown_view = v,
                  shown_kpis = kpi_aggregator cols mcol v,
                  shown_rollups = grouped_rollups cols mcol v,
                  shown_classification = abc_xyz cols mcol v,
                  shown_trend = trend_section ExponentialSmoothing cols mcol ui v\<rparr>)
      else None)"

section \<open>Example data\<close>

definition mk_row :: "string \<Rightarrow> string \<Rightarrow> timestamp \<Rightarrow> real \<Rightarrow> real \<Rightarrow> row" where
  "mk_row i b d q a =
     (\<lambda>_. Null)(''ItemNumber'' := Str i, ''Brand'' := Str b, ''Date'' := Stamp d,
                 ''qty_soldx'' := Num q, ''sold_amount'' := Num a)"

definition demo_merged :: frame where
  "demo_merged =
     \<lparr>columns = [''ItemNumber'', ''Brand'', ''Date'', ''qty_soldx'', ''sold_amount''],
      rows = [mk_row ''A1'' ''Acme'' (2024, 1, 15) 10 81, mk_row ''B2'' ''Bolt'' (2024, 2, 3) 5 19]\<rparr>"

definition demo_qty_only :: frame where
  "demo_qty_only =
     \<lparr>columns = [''ItemNumber'', ''Brand'', ''Date'', ''qty_soldx''],
      rows = [(mk_row ''A1'' ''Acme'' (2024, 1, 15) 10 0)(''sold_amount'' := Null),
              (mk_row ''B2'' ''Bolt'' (2024, 2, 3) 5 0)(''sold_amount'' := Null)]\<rparr>"

definition demo_ui :: ui_state where
  "demo_ui =
     \<lparr>metric_choice = ''Value (sold_amount)'', selected_brands = [Str ''Acme''],
      selected_categories = [], selected_regions = [], selected_class_codes = [],
      selected_family = Str ''All'', selected_item_value = None, date_range = [],
      forecast_horizon = 12, trend_mode = ''add'', seasonal_mode = ''add'',
      manual_growth_pct = 0, training_selection = Picked2 (2024, 2, 1) (2024, 1, 1)\<rparr>"

definition demo_cols :: "string list" where
  "demo_cols = [''ItemNumber'', ''Brand'', ''Date'', ''qty_soldx'', ''sold_amount'', ''_date_dt'']"



definition dated_row :: "string \<Rightarrow> timestamp \<Rightarrow> real \<Rightarrow> row" where
  "dated_row i d a = (mk_row i ''Acme'' d 0 a)(''_date_dt'' := Stamp d)"

definition demo_returns :: "row list" where
  "demo_returns =
     [dated_row ''R9'' (2024, 1, 10) (-2), dated_row ''S1'' (2024, 1, 12) 2,
      dated_row ''R9'' (2024, 2, 10) (-4), dated_row ''S1'' (2024, 2, 12) 4,
      dated_row ''R9'' (2024, 3, 10) (-6), dated_row ''S1'' (2024, 3, 12) 6]"

definition chart_row :: "nat \<Rightarrow> real \<Rightarrow> row" where
  "chart_row m a = (\<lambda>_. Null)(''date'' := Stamp (2024, m, 5), ''sold_amount'' := Num a)"

definition demo_chart12 :: "row list" where
  "demo_chart12 =
     [chart_row 1 40, chart_row 1 80, chart_row 2 60, (chart_row 2 0)(''sold_amount'' := Null),
      chart_row 3 60, chart_row 4 60, chart_row 5 60, chart_row 6 60, chart_row 7 180,
      chart_row 8 180, chart_row 9 180, chart_row 10 180, chart_row 11 180, chart_row 12 180]"

section \<open>Facts about the example data\<close>

lemma demo_date_col: "date_col_name (columns demo_merged) = Some ''Date''"
  unfolding demo_merged_def frame.simps by code_simp

lemma demo_columns: "columns (prepare_dates demo_merged) = demo_cols"
  by (simp add: prepare_dates_def demo_date_col) (simp add: demo_merged_def demo_cols_def)

lemma demo_resolved:
  "brand_col demo_cols = Some ''Brand''" "category_col demo_cols = None"
  "region_col demo_cols = None" "class_code_col demo_cols = None"
  "family_col demo_cols = None" "item_col demo_cols = Some ''ItemNumber''"
  unfolding demo_cols_def by code_simp+

lemma demo_rows:
  "rows (prepare_dates demo_merged) =
     [(mk_row ''A1'' ''Acme'' (2024, 1, 15) 10 81)(''_date_dt'' := Stamp (2024, 1, 15)),
      (mk_row ''B2'' ''Bolt'' (2024, 2, 3) 5 19)(''_date_dt'' := Stamp (2024, 2, 3))]"
  by (simp add: prepare_dates_def demo_date_col)
     (simp add: demo_merged_def mk_row_def to_datetime_def)

lemma demo_stage_views:
  "stage_views demo_merged demo_ui =
     rows (prepare_dates demo_merged) #
     replicate 7 [(mk_row ''A1'' ''Acme'' (2024, 1, 15) 10 81)(''_date_dt'' := Stamp (2024, 1, 15))]"
  by (simp add: stage_views_def filter_stages_def Let_def demo_columns demo_resolved demo_rows
      demo_ui_def multiselect_stage_def family_stage_def item_stage_def date_stage_def
      isin_def mk_row_def numeral_eq_Suc)

lemma demo_qty_only_columns:
  "columns (prepare_dates demo_qty_only) = [''ItemNumber'', ''Brand'', ''Date'', ''qty_soldx'', ''_date_dt'']"
proof -
  have "date_col_name (columns demo_qty_only) = Some ''Date''"
    unfolding demo_qty_only_def frame.simps by code_simp
  then show ?thesis
    by (simp add: prepare_dates_def) (simp add: demo_qty_only_def)
qed

section \<open>Filter engine: every stage narrows the view\<close>

lemma run_stages_chain:
  "\<forall>f\<in>set fs. \<forall>v. subseq (f v) v \<Longrightarrow> i < length fs \<Longrightarrow>
     subseq (run_stages fs v ! Suc i) (run_stages fs v ! i)"
proof (induction fs arbitrary: v i)
  case Nil
  then show ?case by simp
next
  case (Cons f fs)
  show ?case
  proof (cases i)
    case 0
    have "run_stages fs (f v) ! 0 = f v" by (cases fs) simp_all
    with Cons.prems 0 show ?thesis by simp
  next
    case (Suc j)
    with Cons show ?thesis by simp
  qed
qed

lemma run_stages_length: "length (run_stages fs v) = Suc (length fs)"
  by (induction fs arbitrary: v) simp_all

lemma run_stages_last:
  "\<forall>f\<in>set fs. \<forall>v. subseq (f v) v \<Longrightarrow> subseq (last (run_stages fs v)) v"
proof (induction fs arbitrary: v)
  case Nil
  then show ?case by simp
next
  case (Cons f fs)
  have ne: "run_stages fs (f v) \<noteq> []" by (cases fs) simp_all
  have "subseq (last (run_stages fs (f v))) (f v)" using Cons by simp
  moreover have "subseq (f v) v" using Cons.prems by simp
  ultimately have "subseq (last (run_stages fs (f v))) v" by (rule subseq_order.trans)
  with ne show ?case by simp
qed

lemma multiselect_stage_subseq: "subseq (multiselect_stage col sel v) v"
  by (simp add: multiselect_stage_def split: option.splits)

lemma family_stage_subseq: "subseq (family_stage col sel v) v"
  by (simp add: family_stage_def split: option.splits)

lemma item_stage_subseq: "subseq (item_stage col sel v) v"
  by (simp add: item_stage_def split: option.splits)

lemma date_stage_subseq: "subseq (date_stage merged picked v) v"
  by (simp add: date_stage_def split: list.splits)

lemma filter_stages_subseq: "\<forall>f\<in>set (filter_stages merged ui). \<forall>v. subseq (f v) v"
  by (simp add: filter_stages_def Let_def multiselect_stage_subseq family_stage_subseq
      item_stage_subseq date_stage_subseq)

lemma filter_stages_length: "length (filter_stages merged ui) = 7"
  by (simp add: filter_stages_def Let_def)

text \<open>
  C7. The filtered view is a subsequence of the rows of the merged table, so each of its
  rows is a row of that table; the eight views (the table and the view after each of
  the seven stages) never grow from one to the next.
\<close>

theorem filter_monotone:
  "set (df_view merged ui) \<subseteq> set (rows (prepare_dates merged)) \<and>
   subseq (df_view merged ui) (rows (prepare_dates merged)) \<and>
   length (stage_views merged ui) = 8 \<and>
   hd (stage_views merged ui) = rows (prepare_dates merged) \<and>
   (\<forall>i<7. subseq (stage_views merged ui ! Suc i) (stage_views merged ui ! i) \<and>
          length (stage_views merged ui ! Suc i) \<le> length (stage_views merged ui ! i))"
proof -
  let ?fs = "filter_stages merged ui" and ?v = "rows (prepare_dates merged)"
  have all: "\<forall>f\<in>set ?fs. \<forall>v. subseq (f v) v" by (rule filter_stages_subseq)
  have s: "subseq (df_view merged ui) ?v"
    unfolding df_view_def stage_views_def using all by (rule run_stages_last)
  have len: "length (stage_views merged ui) = 8"
    by (simp add: stage_views_def run_stages_length filter_stages_length)
  have h: "hd (stage_views merged ui) = ?v"
    unfolding stage_views_def by (cases ?fs) simp_all
  have step: "subseq (stage_views merged ui ! Suc i) (stage_views merged ui ! i)" if "i < 7" for i
    unfolding stage_views_def using all that
    by (intro run_stages_chain) (simp_all add: filter_stages_length)
  have sub: "set (df_view merged ui) \<subseteq> set ?v"
  proof
    fix x assume "x \<in> set (df_view merged ui)"
    with s show "x \<in> set ?v" by (auto elim: list_emb_set)
  qed
  have lens: "length (stage_views merged ui ! Suc i) \<le> length (stage_views merged ui ! i)"
    if "i < 7" for i
    using step[OF that] by (rule list_emb_length)
  show ?thesis
    using sub s len h step lens by simp
qed

theorem filter_monotone_witness:
  "map length (stage_views demo_merged demo_ui) = [2, 1, 1, 1, 1, 1, 1, 1] \<and>
   length (stage_views demo_merged demo_ui ! Suc 0) \<le> length (stage_views demo_merged demo_ui ! 0) \<and>
   set (df_view demo_merged demo_ui) \<subseteq> set (rows (prepare_dates demo_merged))"
proof -
  have "map length (stage_views demo_merged demo_ui) = [2, 1, 1, 1, 1, 1, 1, 1]"
    by (simp add: demo_stage_views demo_rows numeral_eq_Suc)
  moreover have "(0::nat) < 7" by simp
  ultimately show ?thesis
    using filter_monotone [of demo_merged demo_ui] by blast
qed

lemma run_stages_nth:
  "i < length fs \<Longrightarrow> run_stages fs v ! Suc i = (fs ! i) (run_stages fs v ! i)"
proof (induction fs arbitrary: v i)
  case Nil
  then show ?case by simp
next
  case (Cons f fs)
  show ?case
  proof (cases i)
    case 0
    have "run_stages fs (f v) ! 0 = f v" by (cases fs) simp_all
    with 0 show ?thesis by simp
  next
    case (Suc j)
    with Cons show ?thesis by simp
  qed
qed

lemma stage_views_nth:
  "i < 7 \<Longrightarrow> stage_views merged ui ! Suc i = (filter_stages merged ui ! i) (stage_views merged ui ! i)"
  unfolding stage_views_def by (rule run_stages_nth) (simp add: filter_stages_length)

text \<open>
  C9. In each of the four multi-select stages an empty selection leaves the view as it
  is; a non-empty selection on a column that exists keeps exactly the rows whose cell is
  one of the selected values.
\<close>

theorem empty_selection_is_no_filter:
  "multiselect_stage col [] v = v \<and>
   (sel \<noteq> [] \<longrightarrow>
      multiselect_stage (Some c) sel v = filter (\<lambda>r. r c \<noteq> Null \<and> r c \<in> set sel) v) \<and>
   (selected_brands ui = [] \<longrightarrow> stage_views merged ui ! 1 = stage_views merged ui ! 0) \<and>
   (selected_categories ui = [] \<longrightarrow> stage_views merged ui ! 2 = stage_views merged ui ! 1) \<and>
   (selected_regions ui = [] \<longrightarrow> stage_views merged ui ! 3 = stage_views merged ui ! 2) \<and>
   (selected_class_codes ui = [] \<longrightarrow> stage_views merged ui ! 4 = stage_views merged ui ! 3)"
proof -
  have e: "multiselect_stage k [] w = w" for k w
    by (simp add: multiselect_stage_def split: option.splits)
  have n: "sel \<noteq> [] \<longrightarrow>
      multiselect_stage (Some c) sel v = filter (\<lambda>r. r c \<noteq> Null \<and> r c \<in> set sel) v"
    by (simp add: multiselect_stage_def isin_def)
  have s1: "selected_brands ui = [] \<longrightarrow> stage_views merged ui ! 1 = stage_views merged ui ! 0"
    using stage_views_nth [of 0 merged ui] by (simp add: filter_stages_def Let_def e)
  have s2: "selected_categories ui = [] \<longrightarrow> stage_views merged ui ! 2 = stage_views merged ui ! 1"
    using stage_views_nth [of 1 merged ui] by (simp add: filter_stages_def Let_def e numeral_2_eq_2)
  have s3: "selected_regions ui = [] \<longrightarrow> stage_views merged ui ! 3 = stage_views merged ui ! 2"
    using stage_views_nth [of 2 merged ui] by (simp add: filter_stages_def Let_def e numeral_3_eq_3)
  have s4: "selected_class_codes ui = [] \<longrightarrow> stage_views merged ui ! 4 = stage_views merged ui ! 3"
    using stage_views_nth [of 3 merged ui]
    by (simp add: filter_stages_def Let_def e eval_nat_numeral)
  from e n s1 s2 s3 s4 show ?thesis by simp
qed

theorem empty_selection_is_no_filter_witness:
  "multiselect_stage (Some ''Brand'') [] (rows demo_merged) = rows demo_merged \<and>
   multiselect_stage (Some ''Brand'') [Str ''Acme''] (rows demo_merged) =
     [mk_row ''A1'' ''Acme'' (2024, 1, 15) 10 81] \<and>
   stage_views demo_merged demo_ui ! 2 = stage_views demo_merged demo_ui ! 1"
proof -
  have "[Str ''Acme''] \<noteq> []" by simp
  moreover have "selected_categories demo_ui = []" by (simp add: demo_ui_def)
  ultimately show ?thesis
    using empty_selection_is_no_filter
      [of "Some ''Brand''" "rows demo_merged" "[Str ''Acme'']" "''Brand''" demo_ui demo_merged]
    by (simp add: demo_merged_def mk_row_def)
qed

section \<open>Forecast gate, growth override and training window\<close>









lemma trend_section_cases:
  "(\<exists>msg. trend_section E cols mcol ui view = Inr (TrendInfo msg)) \<or>
   (\<exists>mc. mcol = Some mc \<and> mc \<in> set cols \<and>
      trend_section E cols mcol ui view =
        (case monthly_training (monthly mc (chart_df cols view))
                (training_window (training_selection ui)) of
           Inl err \<Rightarrow> Inl err
         | Inr training \<Rightarrow>
             Inr (Trend (monthly mc (chart_df cols view)) (seasonal_index mc (chart_df cols view))
                    (forecast_stage E ui training))))"
  by (cases mcol) (simp_all add: trend_section_def Let_def)






text \<open>
  C5. An override of 0 returns the projection itself; any other percentage multiplies
  every point by 1 + pct/100, and 10 percent by 1.1. The model is fitted once, on
  arguments that do not mention the override: the forecast with an override is the
  forecast without one, scaled point by point.
\<close>

theorem growth_override_scaling:
  "growth_override 0 forecast = forecast \<and>
   (pct \<noteq> 0 \<longrightarrow> growth_override pct forecast = map (\<lambda>v. v * (1 + pct / 100)) forecast) \<and>
   growth_override 10 forecast = map (\<lambda>v. v * 1.1) forecast \<and>
   (\<forall>a f0. forecast_stage E (ui\<lparr>manual_growth_pct := 0\<rparr>) training = Forecast a f0 \<longrightarrow>
      forecast_stage E (ui\<lparr>manual_growth_pct := pct\<rparr>) training =
        Forecast a (map (\<lambda>p. (fst p, snd p * (1 + pct / 100))) f0))"
proof -
  have g: "growth_override p xs = map (\<lambda>v. v * (1 + p / 100)) xs" for p xs
    by (simp add: growth_override_def Let_def)
  have z: "zip ms (map (\<lambda>v. v * c) xs) = map (\<lambda>p. (fst p, snd p * c)) (zip ms xs)"
    for ms :: "timestamp list" and xs :: "real list" and c
    by (simp add: zip_map2 case_prod_unfold)
  have s: "forecast_stage E (ui\<lparr>manual_growth_pct := pct\<rparr>) training =
        Forecast a (map (\<lambda>p. (fst p, snd p * (1 + pct / 100))) f0)"
    if "forecast_stage E (ui\<lparr>manual_growth_pct := 0\<rparr>) training = Forecast a f0" for a f0
    using that
    by (auto simp: forecast_stage_def Let_def g z growth_override_def
        split: option.splits if_splits)
  have t: "growth_override 10 forecast = map (\<lambda>v. v * 1.1) forecast"
    by (simp add: g)
  show ?thesis
    using s t by (simp add: g)
qed

theorem growth_override_scaling_witness:
  "growth_override 0 [100, 250] = [100, 250] \<and> growth_override 10 [100, 250] = [110, 275] \<and>
   growth_override (-100) [100, 250] = [0, 0]"
proof -
  have "(10::real) \<noteq> 0" "(-100::real) \<noteq> 0" by simp_all
  then show ?thesis
    using growth_override_scaling [of "[100, 250]" 10] growth_override_scaling [of "[100, 250]" "-100"]
    by simp
qed

text \<open>
  C6. A training window given with its ends reversed is the window with its ends in
  order: the two selections give the same window, the same trend section and the same
  page. For a range of two dates the training series is computed; nothing is raised.
\<close>

theorem training_window_swap:
  "(training_start > training_end \<longrightarrow>
      training_window (Picked2 training_start training_end) = Window training_end training_start) \<and>
   training_window (Picked2 training_start training_end) =
     training_window (Picked2 training_end training_start) \<and>
   (\<exists>tr. monthly_training ms (training_window (Picked2 training_start training_end)) = Inr tr) \<and>
   trend_section E cols mcol (ui\<lparr>training_selection := Picked2 training_start training_end\<rparr>) view =
     trend_section E cols mcol (ui\<lparr>training_selection := Picked2 training_end training_start\<rparr>) view \<and>
   run_dashboard E merged (ui\<lparr>training_selection := Picked2 training_start training_end\<rparr>) =
     run_dashboard E merged (ui\<lparr>training_selection := Picked2 training_end training_start\<rparr>)"
proof -
  have w: "training_window (Picked2 a b) = training_window (Picked2 b a)" for a b
    by (auto simp: training_window_def)
  have n: "\<exists>tr. monthly_training ms (training_window (Picked2 training_start training_end)) = Inr tr"
    by (simp add: training_window_def monthly_training_def)
  have f: "forecast_stage E (ui\<lparr>training_selection := x\<rparr>) tr = forecast_stage E ui tr" for x tr
    by (simp add: forecast_stage_def Let_def split: option.splits)
  have t: "trend_section E c m (ui\<lparr>training_selection := Picked2 a b\<rparr>) v =
     trend_section E c m (ui\<lparr>training_selection := Picked2 b a\<rparr>) v" for a b v c m
    by (cases m) (simp_all add: trend_section_def Let_def f w [of a b] split: sum.splits)
  have d: "df_view merged (ui\<lparr>training_selection := x\<rparr>) = df_view merged ui" for x
    by (simp add: df_view_def stage_views_def filter_stages_def Let_def)
  have r: "run_dashboard E merged (ui\<lparr>training_selection := Picked2 a b\<rparr>) =
     run_dashboard E merged (ui\<lparr>training_selection := Picked2 b a\<rparr>)" for a b
    by (simp add: run_dashboard_def Let_def d t [where a = a and b = b])
  have s: "training_start > training_end \<longrightarrow>
      training_window (Picked2 training_start training_end) = Window training_end training_start"
    by (simp add: training_window_def)
  from w n t r s show ?thesis by blast
qed

theorem training_window_swap_witness:
  "training_window (Picked2 (2024, 12, 1) (2023, 1, 1)) = Window (2023, 1, 1) (2024, 12, 1) \<and>
   training_window (Picked2 (2023, 1, 1) (2024, 12, 1)) = Window (2023, 1, 1) (2024, 12, 1)"
proof -
  have "((2024, 12, 1) :: timestamp) > (2023, 1, 1)" by simp
  then show ?thesis
    using training_window_swap [of "(2023, 1, 1)" "(2024, 12, 1)"]
    by (simp add: training_window_def)
qed

text \<open>
  C3. Without a \<^verbatim>\<open>sold_amount\<close> column the script shows none of the filters, KPI cards,
  classification or trend section, although the KPI aggregator run on the same table
  would give a total sales value of 0 and the total quantity.
\<close>

theorem dashboard_without_sold_amount:
  "run_dashboard E demo_qty_only demo_ui = None \<and>
   total_sales (kpi_aggregator (columns (prepare_dates demo_qty_only)) (Some ''qty_soldx'')
      (rows demo_qty_only)) = 0 \<and>
   total_qty (kpi_aggregator (columns (prepare_dates demo_qty_only)) (Some ''qty_soldx'')
      (rows demo_qty_only)) = 15"
  by (simp add: run_dashboard_def demo_qty_only_columns kpi_aggregator_def Let_def)
     (simp add: demo_qty_only_def col_sum_def mk_row_def num_of_def)

section \<open>ABC classification\<close>

lemma cumsum_length: "length (cumsum a xs) = length xs"
  by (induction xs arbitrary: a) simp_all

lemma cumsum_nth: "i < length xs \<Longrightarrow> cumsum a xs ! i = a + sum_list (take (Suc i) xs)"
proof (induction xs arbitrary: a i)
  case Nil
  then show ?case by simp
next
  case (Cons x xs)
  show ?case
  proof (cases i)
    case 0
    then show ?thesis by simp
  next
    case (Suc j)
    with Cons.prems have "j < length xs" by simp
    from Cons.IH [OF this, of "a + x"] Suc show ?thesis by simp
  qed
qed

lemma abc_table_length: "length (abc_table src) = length src"
  by (simp add: abc_table_def Let_def cumsum_length)

lemma abc_table_nth:
  assumes "i < length src"
  shows "abc_table src ! i =
     \<lparr>item_id = fst (src ! i), item_total = snd (src ! i),
      cumulative_pct = sum_list (take (Suc i) (map snd src)) / sum_list (map snd src) * 100,
      ABC = classify_abc (sum_list (take (Suc i) (map snd src)) / sum_list (map snd src) * 100)\<rparr>"
  using assms by (simp add: abc_table_def Let_def cumsum_length cumsum_nth)

lemma abc_table_columns:
  "map item_id (abc_table src) = map fst src" "map item_total (abc_table src) = map snd src"
  by (rule nth_equalityI; simp add: abc_table_length abc_table_nth)+

lemma map_filter_cell_key:
  "set (List.map_filter (cell_key ic) view) = {k. k \<noteq> Null \<and> (\<exists>r\<in>set view. r ic = k)}"
  by (auto simp: List.map_filter_def cell_key_def split: if_splits)

lemma filter_cell_key:
  "k \<noteq> Null \<Longrightarrow> filter (\<lambda>r. cell_key ic r = Some k) view = filter (\<lambda>r. r ic = k) view"
  by (rule filter_cong) (auto simp: cell_key_def)

lemma groupby_sum_keys: "map fst (groupby_sum key c rs) = remdups (List.map_filter key rs)"
  by (simp add: groupby_sum_def o_def)

lemma groupby_sum_entry:
  "(k, s) \<in> set (groupby_sum key c rs) \<longleftrightarrow>
     k \<in> set (List.map_filter key rs) \<and> s = col_sum c (filter (\<lambda>r. key r = Some k) rs)"
  by (auto simp: groupby_sum_def)

lemma abc_source_distinct: "distinct (map fst (abc_source ic mc view))"
proof -
  have "distinct (map fst (sort_key (\<lambda>g. - snd g) (groupby_sum (cell_key ic) mc view)))"
    by (metis distinct_map distinct_remdups distinct_sort groupby_sum_keys set_sort)
  then show ?thesis
    unfolding abc_source_def by (rule distinct_map_filter)
qed

lemma abc_source_entry:
  "(k, s) \<in> set (abc_source ic mc view) \<longleftrightarrow>
     k \<noteq> Null \<and> (\<exists>r\<in>set view. r ic = k) \<and> s = col_sum mc (filter (\<lambda>r. r ic = k) view) \<and> 0 < s"
proof -
  have "(k, s) \<in> set (abc_source ic mc view) \<longleftrightarrow>
      (k, s) \<in> set (groupby_sum (cell_key ic) mc view) \<and> 0 < s"
    by (auto simp: abc_source_def)
  also have "\<dots> \<longleftrightarrow> k \<in> set (List.map_filter (cell_key ic) view) \<and>
      s = col_sum mc (filter (\<lambda>r. cell_key ic r = Some k) view) \<and> 0 < s"
    by (auto simp: groupby_sum_entry)
  also have "\<dots> \<longleftrightarrow> k \<noteq> Null \<and> (\<exists>r\<in>set view. r ic = k) \<and>
      s = col_sum mc (filter (\<lambda>r. r ic = k) view) \<and> 0 < s"
    by (auto simp: map_filter_cell_key filter_cell_key)
  finally show ?thesis .
qed

lemma abc_source_sorted: "sorted_wrt (\<ge>) (map snd (abc_source ic mc view))"
proof -
  let ?f = "\<lambda>g :: cell \<times> real. - snd g"
  have "sorted (map ?f (abc_source ic mc view))"
    unfolding abc_source_def by (intro sorted_filter sorted_sort_key)
  then have "sorted_wrt (\<lambda>a b. ?f a \<le> ?f b) (abc_source ic mc view)"
    by (simp add: sorted_map)
  then show ?thesis
    by (simp add: sorted_wrt_map)
qed

lemma abc_source_positive: "\<forall>x\<in>set (map snd (abc_source ic mc view)). 0 < x"
  by (auto simp: abc_source_def)

lemma first_and_other_le_sum:
  fixes xs :: "real list"
  assumes "0 < i" "i < length xs" "\<forall>x\<in>set xs. 0 \<le> x"
  shows "xs ! 0 + xs ! i \<le> sum_list xs"
proof (cases xs)
  case Nil
  with assms show ?thesis by simp
next
  case (Cons x ys)
  with assms have "ys ! (i - 1) \<in> set ys" by simp
  moreover from assms Cons have "\<And>y. y \<in> set ys \<Longrightarrow> 0 \<le> y" by simp
  ultimately have "ys ! (i - 1) \<le> sum_list ys" by (rule member_le_sum_list)
  with assms Cons show ?thesis by simp
qed

lemma share_81_is_first:
  fixes xs :: "real list"
  assumes s: "sorted_wrt (\<ge>) xs" and pos: "\<forall>x\<in>set xs. 0 < x" and i: "i < length xs"
    and share: "xs ! i = 81 / 100 * sum_list xs"
  shows "i = 0"
proof (rule ccontr)
  assume "i \<noteq> 0"
  then have i0: "0 < i" by simp
  from pos have nn: "\<forall>x\<in>set xs. 0 \<le> x" by (simp add: less_imp_le)
  from s i0 i have "xs ! 0 \<ge> xs ! i" by (rule sorted_wrt_nth_less)
  moreover have "xs ! 0 + xs ! i \<le> sum_list xs" using i0 i nn by (rule first_and_other_le_sum)
  moreover have "0 < xs ! i" using pos i by simp
  ultimately show False using share by simp
qed

lemma share_81_is_B:
  fixes xs :: "real list"
  assumes s: "sorted_wrt (\<ge>) xs" and pos: "\<forall>x\<in>set xs. 0 < x" and i: "i < length xs"
    and share: "xs ! i = 81 / 100 * sum_list xs"
  shows "classify_abc (sum_list (take (Suc i) xs) / sum_list xs * 100) = ''B''"
proof -
  have i0: "i = 0" using s pos i share by (rule share_81_is_first)
  with i have "sum_list (take (Suc i) xs) = xs ! 0" by (cases xs) simp_all
  moreover have "0 < xs ! i" using pos i by simp
  with share have "sum_list xs \<noteq> 0" by auto
  ultimately have "sum_list (take (Suc i) xs) / sum_list xs * 100 = 81"
    using share i0 by simp
  then show ?thesis by (simp add: classify_abc_def)
qed

lemma abc_xyz_abc_part:
  assumes "item_col cols = Some ic" "abc_xyz cols (Some mc) view = Classified cr d"
  shows "map abc_part cr = abc_table (abc_source ic mc view)"
proof -
  have "map abc_part (classification_result abc xyz) = abc" for abc xyz
    by (cases xyz) (auto simp: classification_result_def o_def intro!: map_idI split: option.splits)
  with assms show ?thesis
    by (auto simp: abc_xyz_def Let_def split: if_splits)
qed

text \<open>
  C1. The ABC table lists each item id that has a row and a positive metric sum exactly
  once, with that sum, largest first; the running percentage is the cumulative sum over
  the total of the listed sums, times 100; the label is A up to 80, B up to 95, C
  beyond. An item whose own sum is 81 percent of that total is labelled B. The table is
  the ABC part of the classification the script shows.
\<close>

theorem abc_classification:
  assumes "T = abc_table (abc_source ic mc view)"
  shows "distinct (map item_id T) \<and>
     set (map item_id T) =
       {k. k \<noteq> Null \<and> (\<exists>r\<in>set view. r ic = k) \<and> 0 < col_sum mc (filter (\<lambda>r. r ic = k) view)} \<and>
     (\<forall>e\<in>set T. item_total e = col_sum mc (filter (\<lambda>r. r ic = item_id e) view)) \<and>
     sorted_wrt (\<ge>) (map item_total T) \<and>
     (\<forall>i<length T. cumulative_pct (T ! i) =
        sum_list (take (Suc i) (map item_total T)) / sum_list (map item_total T) * 100) \<and>
     (\<forall>e\<in>set T. ABC e =
        (if cumulative_pct e \<le> 80 then ''A'' else if cumulative_pct e \<le> 95 then ''B'' else ''C'')) \<and>
     (\<forall>e\<in>set T. item_total e = 81 / 100 * sum_list (map item_total T) \<longrightarrow> ABC e = ''B'') \<and>
     (\<forall>cols cr d. item_col cols = Some ic \<and> abc_xyz cols (Some mc) view = Classified cr d \<longrightarrow>
        map abc_part cr = T)"
proof -
  let ?src = "abc_source ic mc view"
  have len: "length T = length ?src" by (simp add: assms abc_table_length)
  have ids: "map item_id T = map fst ?src" and tots: "map item_total T = map snd ?src"
    by (simp_all add: assms abc_table_columns)
  have nth: "T ! i =
     \<lparr>item_id = fst (?src ! i), item_total = snd (?src ! i),
      cumulative_pct = sum_list (take (Suc i) (map snd ?src)) / sum_list (map snd ?src) * 100,
      ABC = classify_abc (sum_list (take (Suc i) (map snd ?src)) / sum_list (map snd ?src) * 100)\<rparr>"
    if "i < length ?src" for i
    using that by (simp add: assms abc_table_nth)
  have c1: "distinct (map item_id T)"
    by (simp only: ids abc_source_distinct)
  have c2: "set (map item_id T) =
       {k. k \<noteq> Null \<and> (\<exists>r\<in>set view. r ic = k) \<and> 0 < col_sum mc (filter (\<lambda>r. r ic = k) view)}"
  proof -
    have "k \<in> set (map fst ?src) \<longleftrightarrow>
        k \<noteq> Null \<and> (\<exists>r\<in>set view. r ic = k) \<and> 0 < col_sum mc (filter (\<lambda>r. r ic = k) view)" for k
    proof -
      have "k \<in> set (map fst ?src) \<longleftrightarrow> (\<exists>s. (k, s) \<in> set ?src)" by force
      then show ?thesis by (simp add: abc_source_entry)
    qed
    then show ?thesis by (simp only: ids) blast
  qed
  have c3: "\<forall>e\<in>set T. item_total e = col_sum mc (filter (\<lambda>r. r ic = item_id e) view)"
  proof
    fix e assume "e \<in> set T"
    then obtain i where i: "i < length ?src" and e: "e = T ! i"
      by (metis in_set_conv_nth len)
    from i have "(fst (?src ! i), snd (?src ! i)) \<in> set ?src" by simp
    then have "snd (?src ! i) = col_sum mc (filter (\<lambda>r. r ic = fst (?src ! i)) view)"
      by (simp only: abc_source_entry)
    with e nth [OF i] show "item_total e = col_sum mc (filter (\<lambda>r. r ic = item_id e) view)"
      by simp
  qed
  have c4: "sorted_wrt (\<ge>) (map item_total T)"
    by (simp only: tots abc_source_sorted)
  have c5: "\<forall>i<length T. cumulative_pct (T ! i) =
        sum_list (take (Suc i) (map item_total T)) / sum_list (map item_total T) * 100"
    by (simp add: len tots nth)
  have c6: "\<forall>e\<in>set T. ABC e =
        (if cumulative_pct e \<le> 80 then ''A'' else if cumulative_pct e \<le> 95 then ''B'' else ''C'')"
  proof
    fix e assume "e \<in> set T"
    then obtain i where i: "i < length ?src" and e: "e = T ! i"
      by (metis in_set_conv_nth len)
    show "ABC e =
        (if cumulative_pct e \<le> 80 then ''A'' else if cumulative_pct e \<le> 95 then ''B'' else ''C'')"
      by (simp only: e nth [OF i] abc_row.simps classify_abc_def)
  qed
  have c7: "\<forall>e\<in>set T. item_total e = 81 / 100 * sum_list (map item_total T) \<longrightarrow> ABC e = ''B''"
  proof (intro ballI impI)
    fix e assume "e \<in> set T" and share: "item_total e = 81 / 100 * sum_list (map item_total T)"
    then obtain i where i: "i < length ?src" and e: "e = T ! i"
      by (metis in_set_conv_nth len)
    from share e nth [OF i] i have "map snd ?src ! i = 81 / 100 * sum_list (map snd ?src)"
      by (simp add: tots)
    with abc_source_sorted abc_source_positive i
    have "classify_abc (sum_list (take (Suc i) (map snd ?src)) / sum_list (map snd ?src) * 100) = ''B''"
      by (intro share_81_is_B) simp_all
    with e nth [OF i] show "ABC e = ''B''" by simp
  qed
  have c8: "\<forall>cols cr d. item_col cols = Some ic \<and> abc_xyz cols (Some mc) view = Classified cr d \<longrightarrow>
        map abc_part cr = T"
    unfolding assms using abc_xyz_abc_part by blast
  from c1 c2 c3 c4 c5 c6 c7 c8 show ?thesis by (intro conjI)
qed

lemma demo_abc_source:
  "abc_source ''ItemNumber'' ''sold_amount'' (rows demo_merged) = [(Str ''A1'', 81), (Str ''B2'', 19)]"
  by (simp add: abc_source_def groupby_sum_def cell_key_def col_sum_def
      num_of_def demo_merged_def mk_row_def)

lemma demo_abc_table:
  "abc_table (abc_source ''ItemNumber'' ''sold_amount'' (rows demo_merged)) =
     [\<lparr>item_id = Str ''A1'', item_total = 81, cumulative_pct = 81, ABC = ''B''\<rparr>,
      \<lparr>item_id = Str ''B2'', item_total = 19, cumulative_pct = 100, ABC = ''C''\<rparr>]"
  by (simp add: demo_abc_source abc_table_def classify_abc_def)

theorem abc_classification_witness:
  "map ABC (abc_table (abc_source ''ItemNumber'' ''sold_amount'' (rows demo_merged))) = [''B'', ''C''] \<and>
   map cumulative_pct (abc_table (abc_source ''ItemNumber'' ''sold_amount'' (rows demo_merged))) = [81, 100] \<and>
   ABC (hd (abc_table (abc_source ''ItemNumber'' ''sold_amount'' (rows demo_merged)))) = ''B''"
proof -
  let ?T = "abc_table (abc_source ''ItemNumber'' ''sold_amount'' (rows demo_merged))"
  have m: "hd ?T \<in> set ?T" by (simp add: demo_abc_table)
  have s: "item_total (hd ?T) = 81 / 100 * sum_list (map item_total ?T)"
    by (simp add: demo_abc_table)
  from abc_classification [OF refl, of "''ItemNumber''" "''sold_amount''" "rows demo_merged"] m s
  have "ABC (hd ?T) = ''B''" by blast
  then show ?thesis by (simp add: demo_abc_table)
qed

section \<open>XYZ classification\<close>

lemma variability_row:
  assumes "v \<in> set (variability mi)"
  shows "v = variability_of (var_item v) (monthly_values mi (var_item v)) \<and>
         monthly_values mi (var_item v) \<noteq> []"
proof -
  from assms obtain k where k: "k \<in> set (map (\<lambda>g. fst (fst g)) mi)"
    and v: "v = variability_of k (monthly_values mi k)"
    by (auto simp: variability_def)
  have vi: "var_item v = k" by (simp add: v variability_of_def Let_def)
  from k obtain g where "g \<in> set mi" "fst (fst g) = k" by auto
  then have "filter (\<lambda>g. fst (fst g) = k) mi \<noteq> []"
    by (auto simp: filter_empty_conv)
  then have "monthly_values mi k \<noteq> []" by (simp add: monthly_values_def)
  with v vi show ?thesis by simp
qed

lemma xyz_source_row:
  assumes "xyz_source cols ic mc view = Some vs" "v \<in> set vs"
  shows "v = variability_of (var_item v) (monthly_values (monthly_item ic mc view) (var_item v)) \<and>
         monthly_values (monthly_item ic mc view) (var_item v) \<noteq> []"
proof -
  from assms have "v \<in> set (variability (monthly_item ic mc view))"
    by (auto simp: xyz_source_def Let_def split: if_splits)
  then show ?thesis by (rule variability_row)
qed

lemma monthly_values_sums:
  "monthly_values (monthly_item ic mc view) k =
     map (\<lambda>km. col_sum mc (filter (\<lambda>r. item_month_key ic r = Some km) view))
       (filter (\<lambda>km. fst km = k) (remdups (List.map_filter (item_month_key ic) view)))"
  by (simp add: monthly_values_def monthly_item_def groupby_sum_def filter_map o_def)

lemma std_nonneg: "0 \<le> fillna 0 (std xs)"
proof (cases "length xs < 2")
  case True
  then show ?thesis by (simp add: std_def fillna_def)
next
  case False
  have "0 \<le> sum_list (map (\<lambda>x. (x - mean xs)\<^sup>2) xs)"
    by (rule sum_list_nonneg) auto
  then have "0 \<le> sqrt (sum_list (map (\<lambda>x. (x - mean xs)\<^sup>2) xs) / real (length xs - 1))"
    by (simp only: real_sqrt_ge_0_iff) (rule divide_nonneg_nonneg, simp_all)
  with False show ?thesis by (simp only: std_def fillna_def if_False option.case)
qed

lemma std_single: "std [x] = None"
  by (simp add: std_def)

lemma variability_of_simps:
  "var_item (variability_of k xs) = k"
  "mean_metric (variability_of k xs) = mean xs"
  "std_metric (variability_of k xs) = fillna 0 (std xs)"
  "cv (variability_of k xs) = (if mean xs \<noteq> 0 then Fin (fillna 0 (std xs) / mean xs) else PInf)"
  "XYZ (variability_of k xs) =
     classify_xyz (if mean xs \<noteq> 0 then Fin (fillna 0 (std xs) / mean xs) else PInf)"
  by (simp_all add: variability_of_def Let_def)

lemma classify_xyz_simps:
  "classify_xyz PInf = ''Z''"
  "classify_xyz (Fin c) = (if c \<le> 0.5 then ''X'' else if c \<le> 1 then ''Y'' else ''Z'')"
  by (simp_all add: classify_xyz_def xle_def)

text \<open>
  C2, as the code has it. For every row of the XYZ table: the item has at least one
  monthly sum; the mean and the sample standard deviation (0 when undefined) are those
  of its monthly sums; the coefficient of variation is infinite exactly when the mean is
  0 and their quotient otherwise, which is 0 or more for a positive mean and 0 or less
  for a negative mean, where the class is then X; the class is X up to 0.5, Y up to 1,
  Z beyond and for the infinite value.
\<close>

theorem xyz_classification:
  assumes "xyz_source cols ic mc view = Some vs" and "v \<in> set vs"
    and "xs = monthly_values (monthly_item ic mc view) (var_item v)"
  shows "xs \<noteq> [] \<and>
     xs = map (\<lambda>km. col_sum mc (filter (\<lambda>r. item_month_key ic r = Some km) view))
            (filter (\<lambda>km. fst km = var_item v) (remdups (List.map_filter (item_month_key ic) view))) \<and>
     mean_metric v = mean xs \<and> std_metric v = fillna 0 (std xs) \<and> 0 \<le> std_metric v \<and>
     (cv v = PInf \<longleftrightarrow> mean xs = 0) \<and>
     (mean xs \<noteq> 0 \<longrightarrow> cv v = Fin (std_metric v / mean_metric v)) \<and>
     (0 < mean xs \<longrightarrow> (\<exists>c\<ge>0. cv v = Fin c)) \<and>
     (mean xs < 0 \<longrightarrow> (\<exists>c\<le>0. cv v = Fin c) \<and> XYZ v = ''X'') \<and>
     (cv v = PInf \<longrightarrow> XYZ v = ''Z'') \<and>
     (\<forall>c. cv v = Fin c \<longrightarrow> XYZ v = (if c \<le> 0.5 then ''X'' else if c \<le> 1 then ''Y'' else ''Z''))"
proof -
  from xyz_source_row [OF assms(1,2)] assms(3)
  have v: "v = variability_of (var_item v) xs" and ne: "xs \<noteq> []" by simp_all
  have sums: "xs = map (\<lambda>km. col_sum mc (filter (\<lambda>r. item_month_key ic r = Some km) view))
            (filter (\<lambda>km. fst km = var_item v) (remdups (List.map_filter (item_month_key ic) view)))"
    by (simp only: assms(3) monthly_values_sums)
  have m: "mean_metric v = mean xs" and s: "std_metric v = fillna 0 (std xs)"
    and c: "cv v = (if mean xs \<noteq> 0 then Fin (fillna 0 (std xs) / mean xs) else PInf)"
    and x: "XYZ v = classify_xyz (cv v)"
    by (subst v, simp add: variability_of_simps)+
  have s0: "0 \<le> std_metric v" by (simp add: s std_nonneg)
  have inf: "cv v = PInf \<longleftrightarrow> mean xs = 0" by (simp add: c)
  have fin: "mean xs \<noteq> 0 \<longrightarrow> cv v = Fin (std_metric v / mean_metric v)" by (simp add: c m s)
  have pos: "0 < mean xs \<longrightarrow> (\<exists>c\<ge>0. cv v = Fin c)"
    using s0 by (auto simp: c s)
  have neg: "mean xs < 0 \<longrightarrow> (\<exists>c\<le>0. cv v = Fin c) \<and> XYZ v = ''X''"
  proof
    assume n: "mean xs < 0"
    define q where "q = std_metric v / mean xs"
    from s0 n have q0: "q \<le> 0" unfolding q_def by (rule divide_nonneg_neg)
    from n have cq: "cv v = Fin q" by (simp add: c s q_def)
    from q0 have "q \<le> 0.5" by simp
    then have "XYZ v = ''X''" by (simp only: x cq classify_xyz_simps if_True)
    with q0 cq show "(\<exists>c\<le>0. cv v = Fin c) \<and> XYZ v = ''X''" by blast
  qed
  have z: "cv v = PInf \<longrightarrow> XYZ v = ''Z''" by (simp add: x classify_xyz_simps)
  have cls: "\<forall>c. cv v = Fin c \<longrightarrow> XYZ v = (if c \<le> 0.5 then ''X'' else if c \<le> 1 then ''Y'' else ''Z'')"
    by (simp add: x classify_xyz_simps)
  from ne sums m s s0 inf fin pos neg z cls show ?thesis by (intro conjI)
qed

lemma demo_returns_monthly_item:
  "monthly_item ''ItemNumber'' ''sold_amount'' demo_returns =
     [((Str ''R9'', (2024, 1, 1)), -2), ((Str ''S1'', (2024, 1, 1)), 2),
      ((Str ''R9'', (2024, 2, 1)), -4), ((Str ''S1'', (2024, 2, 1)), 4),
      ((Str ''R9'', (2024, 3, 1)), -6), ((Str ''S1'', (2024, 3, 1)), 6)]"
  by (simp add: monthly_item_def groupby_sum_def item_month_key_def month_start_def col_sum_def
      num_of_def demo_returns_def dated_row_def mk_row_def)

lemma std_2_4_6: "std [2, 4, 6] = Some 2" "std [-2, -4, -6] = Some 2"
  by (simp_all add: std_def mean_def)

lemma demo_returns_xyz:
  "xyz_source demo_cols ''ItemNumber'' ''sold_amount'' demo_returns =
     Some [\<lparr>var_item = Str ''R9'', mean_metric = -4, std_metric = 2, cv = Fin (- 1 / 2), XYZ = ''X''\<rparr>,
           \<lparr>var_item = Str ''S1'', mean_metric = 4, std_metric = 2, cv = Fin (1 / 2), XYZ = ''X''\<rparr>]"
proof -
  have d: "notna_any ''_date_dt'' demo_returns"
    by (simp add: notna_any_def demo_returns_def dated_row_def)
  have c: "''_date_dt'' \<in> set demo_cols" by (simp add: demo_cols_def)
  show ?thesis
    by (simp add: xyz_source_def d c demo_returns_monthly_item variability_def monthly_values_def
        variability_of_def std_2_4_6 fillna_def classify_xyz_simps)
       (simp add: mean_def Let_def classify_xyz_simps)
qed

theorem xyz_classification_witness:
  "mean_metric \<lparr>var_item = Str ''S1'', mean_metric = 4, std_metric = 2, cv = Fin (1 / 2), XYZ = ''X''\<rparr>
     = mean [2, 4, 6] \<and>
   monthly_values (monthly_item ''ItemNumber'' ''sold_amount'' demo_returns) (Str ''S1'') = [2, 4, 6] \<and>
   mean [2, 4, 6] = 4"
proof -
  let ?v = "\<lparr>var_item = Str ''S1'', mean_metric = 4, std_metric = 2, cv = Fin (1 / 2), XYZ = ''X''\<rparr>"
  have xs: "monthly_values (monthly_item ''ItemNumber'' ''sold_amount'' demo_returns) (var_item ?v) = [2, 4, 6]"
    by (simp add: demo_returns_monthly_item monthly_values_def)
  have "?v \<in> set [\<lparr>var_item = Str ''R9'', mean_metric = -4, std_metric = 2, cv = Fin (- 1 / 2), XYZ = ''X''\<rparr>, ?v]"
    by simp
  from xyz_classification [OF demo_returns_xyz this xs [symmetric]]
  have "mean_metric ?v = mean [2, 4, 6]" by blast
  with xs show ?thesis by (simp add: mean_def)
qed

text \<open>
  An item whose three monthly sums are -2, -4 and -6 has mean -4, standard deviation 2
  and coefficient of variation -1/2: the mean is not 0 and the coefficient is negative.
\<close>

theorem xyz_negative_cv_counterexample:
  "xyz_source demo_cols ''ItemNumber'' ''sold_amount'' demo_returns =
     Some [\<lparr>var_item = Str ''R9'', mean_metric = -4, std_metric = 2, cv = Fin (- 1 / 2), XYZ = ''X''\<rparr>,
           \<lparr>var_item = Str ''S1'', mean_metric = 4, std_metric = 2, cv = Fin (1 / 2), XYZ = ''X''\<rparr>] \<and>
   monthly_values (monthly_item ''ItemNumber'' ''sold_amount'' demo_returns) (Str ''R9'') = [-2, -4, -6] \<and>
   mean [-2, -4, -6] \<noteq> 0 \<and> \<not> (0 :: real) \<le> - 1 / 2"
  by (simp add: demo_returns_xyz demo_returns_monthly_item monthly_values_def mean_def)

text \<open>
  C10. An item with a single monthly sum has an undefined sample standard deviation,
  which is replaced by 0; if the sum is not 0 its coefficient of variation is 0 and its
  class X.
\<close>

theorem single_month_is_X:
  assumes "xyz_source cols ic mc view = Some vs" and "v \<in> set vs"
    and "monthly_values (monthly_item ic mc view) (var_item v) = [x]"
  shows "std [x] = None \<and> std_metric v = 0 \<and> mean_metric v = x \<and>
     (x \<noteq> 0 \<longrightarrow> cv v = Fin 0 \<and> XYZ v = ''X'')"
proof -
  from xyz_source_row [OF assms(1,2)] assms(3)
  have v: "v = variability_of (var_item v) [x]" by simp
  have s: "std_metric v = 0" and m: "mean_metric v = x"
    and c: "cv v = (if x \<noteq> 0 then Fin 0 else PInf)"
    and z: "XYZ v = classify_xyz (cv v)"
    by (subst v, simp add: variability_of_simps std_single fillna_def mean_def)+
  from s m c z std_single show ?thesis by (simp add: classify_xyz_simps)
qed

lemma demo_merged_xyz:
  "xyz_source demo_cols ''ItemNumber'' ''sold_amount'' (rows (prepare_dates demo_merged)) =
     Some [\<lparr>var_item = Str ''A1'', mean_metric = 81, std_metric = 0, cv = Fin 0, XYZ = ''X''\<rparr>,
           \<lparr>var_item = Str ''B2'', mean_metric = 19, std_metric = 0, cv = Fin 0, XYZ = ''X''\<rparr>]"
proof -
  have d: "notna_any ''_date_dt'' (rows (prepare_dates demo_merged))"
    by (simp add: notna_any_def demo_rows)
  have c: "''_date_dt'' \<in> set demo_cols" by (simp add: demo_cols_def)
  have mi: "monthly_item ''ItemNumber'' ''sold_amount'' (rows (prepare_dates demo_merged)) =
      [((Str ''A1'', (2024, 1, 1)), 81), ((Str ''B2'', (2024, 2, 1)), 19)]"
    by (simp add: monthly_item_def groupby_sum_def item_month_key_def month_start_def col_sum_def
        num_of_def demo_rows mk_row_def)
  show ?thesis
    by (simp add: xyz_source_def d c mi variability_def monthly_values_def
        variability_of_def std_single fillna_def classify_xyz_simps mean_def Let_def)
qed

theorem single_month_is_X_witness:
  "monthly_values (monthly_item ''ItemNumber'' ''sold_amount'' (rows (prepare_dates demo_merged)))
     (Str ''A1'') = [81] \<and>
   XYZ \<lparr>var_item = Str ''A1'', mean_metric = 81, std_metric = 0, cv = Fin 0, XYZ = ''X''\<rparr> = ''X'' \<and>
   std [81] = None"
proof -
  let ?v = "\<lparr>var_item = Str ''A1'', mean_metric = 81, std_metric = 0, cv = Fin 0, XYZ = ''X''\<rparr>"
  have xs: "monthly_values (monthly_item ''ItemNumber'' ''sold_amount'' (rows (prepare_dates demo_merged)))
     (var_item ?v) = [81]"
    by (simp add: monthly_item_def groupby_sum_def item_month_key_def month_start_def col_sum_def
        num_of_def demo_rows mk_row_def monthly_values_def)
  have "?v \<in> set [?v, \<lparr>var_item = Str ''B2'', mean_metric = 19, std_metric = 0, cv = Fin 0, XYZ = ''X''\<rparr>]"
    by simp
  from single_month_is_X [OF demo_merged_xyz this xs]
  have "std [81] = None" by blast
  with xs show ?thesis by simp
qed

section \<open>Seasonal index\<close>

lemma sum_list_divide: "sum_list (map (\<lambda>a. a / c) xs) = sum_list xs / (c :: real)"
  by (induction xs) (simp_all add: add_divide_distrib)

lemma mean_scaled:
  assumes "xs \<noteq> []" "mean xs = om" "om \<noteq> 0"
  shows "mean (map (\<lambda>a. a / om) xs) = 1"
proof -
  from assms(1) have n: "real (length xs) \<noteq> 0" by simp
  have "mean (map (\<lambda>a. a / om) xs) = sum_list xs / om / real (length xs)"
    by (simp add: mean_def sum_list_divide)
  also have "\<dots> = mean xs / om" by (simp add: mean_def)
  also have "\<dots> = 1" using assms(2,3) by simp
  finally show ?thesis .
qed

lemma map_filter_index:
  "List.map_filter (\<lambda>e. snd (snd e))
     (map (\<lambda>(m, avg_metric). (m, avg_metric,
        case (avg_metric, Some om) of (Some a, Some om) \<Rightarrow> Some (a / om) | _ \<Rightarrow> None)) summary)
   = map (\<lambda>a. a / om) (List.map_filter snd summary)"
  by (induction summary) (auto simp: split: option.splits)

lemma all_defined_column:
  assumes "\<forall>e\<in>set tbl. snd (snd e) \<noteq> None"
  shows "map (\<lambda>e. snd (snd e)) tbl = map Some (List.map_filter (\<lambda>e. snd (snd e)) tbl) \<and>
         length (List.map_filter (\<lambda>e. snd (snd e)) tbl) = length tbl"
  using assms by (induction tbl) auto

lemma set_stamps: "set (stamps c rs) = {t. \<exists>r\<in>set rs. r c = Stamp t}"
  by (induction rs) (auto simp: stamps_def split: cell.splits)

lemma month_nums_set:
  "set (month_nums chart) = {m. \<exists>r\<in>set chart. \<exists>y d. r ''date'' = Stamp (y, m, d)}"
proof -
  have "set (month_nums chart) = (\<lambda>t. fst (snd t)) ` {t. \<exists>r\<in>set chart. r ''date'' = Stamp t}"
    by (simp add: month_nums_def set_stamps)
  also have "\<dots> = {m. \<exists>r\<in>set chart. \<exists>y d. r ''date'' = Stamp (y, m, d)}"
    by force
  finally show ?thesis .
qed

lemma month_nums_sorted: "sorted (month_nums chart) \<and> distinct (month_nums chart)"
  by (simp add: month_nums_def)

lemma nums_map:
  "nums (map f rs) = List.map_filter (\<lambda>r. case f r of Num x \<Rightarrow> Some x | _ \<Rightarrow> None) rs"
  by (induction rs) (simp_all add: nums_def split: cell.splits)

lemma seasonal_summary_entry:
  assumes "(m, a) \<in> set (seasonal_summary mc chart)"
  shows "\<exists>xs. xs = List.map_filter (\<lambda>r. case r mc of Num x \<Rightarrow> Some x | _ \<Rightarrow> None)
                  (filter (\<lambda>r. case r ''date'' of Stamp t \<Rightarrow> fst (snd t) = m | _ \<Rightarrow> False) chart) \<and>
           a = (if xs = [] then None else Some (sum_list xs / real (length xs)))"
  using assms by (auto simp: seasonal_summary_def nums_map nan_mean_def mean_def)

lemma trend_section_seasonal:
  assumes "trend_section E cols (Some mc) ui view = Inr (Trend ms sn f)"
  shows "sn = seasonal_index mc (chart_df cols view)"
proof -
  from trend_section_cases [of E cols "Some mc" ui view] assms
  have "trend_section E cols (Some mc) ui view =
        (case monthly_training (monthly mc (chart_df cols view))
                (training_window (training_selection ui)) of
           Inl err \<Rightarrow> Inl err
         | Inr training \<Rightarrow>
             Inr (Trend (monthly mc (chart_df cols view)) (seasonal_index mc (chart_df cols view))
                    (forecast_stage E ui training)))"
    by auto
  with assms show ?thesis by (auto split: sum.splits)
qed

text \<open>
  C8. The seasonal table has one row per calendar month that has a dated row, in
  ascending order; the figure of a month is the sum of the metric values of its rows
  divided by their number, missing values left out. When the overall mean of these
  monthly averages (their sum divided by their number) is a number other than 0, the
  seasonal index of each month is its average divided by that mean, and the index
  values have mean 1. If the months with data are the twelve calendar months and each
  has an average, the table has twelve index values and their sum divided by 12 is 1.
  It is the table the trend section shows, whatever the training window.
\<close>

theorem seasonal_index_mean_one:
  assumes "nan_mean (List.map_filter snd (seasonal_summary mc chart)) = Some om" and "om \<noteq> 0"
  shows "\<exists>tbl. seasonal_index mc chart = SeasonalIndex tbl \<and>
     map fst tbl = month_nums chart \<and>
     sorted (map fst tbl) \<and> distinct (map fst tbl) \<and>
     set (map fst tbl) = {m. \<exists>r\<in>set chart. \<exists>y d. r ''date'' = Stamp (y, m, d)} \<and>
     (\<forall>e\<in>set tbl. \<exists>xs.
        xs = List.map_filter (\<lambda>r. case r mc of Num x \<Rightarrow> Some x | _ \<Rightarrow> None)
               (filter (\<lambda>r. case r ''date'' of Stamp t \<Rightarrow> fst (snd t) = fst e | _ \<Rightarrow> False) chart) \<and>
        fst (snd e) = (if xs = [] then None else Some (sum_list xs / real (length xs)))) \<and>
     List.map_filter (\<lambda>e. fst (snd e)) tbl \<noteq> [] \<and>
     om = sum_list (List.map_filter (\<lambda>e. fst (snd e)) tbl) /
            real (length (List.map_filter (\<lambda>e. fst (snd e)) tbl)) \<and>
     map (\<lambda>e. (fst e, fst (snd e))) tbl = seasonal_summary mc chart \<and>
     (\<forall>e\<in>set tbl. snd (snd e) = map_option (\<lambda>a. a / om) (fst (snd e))) \<and>
     List.map_filter (\<lambda>e. snd (snd e)) tbl \<noteq> [] \<and>
     sum_list (List.map_filter (\<lambda>e. snd (snd e)) tbl) /
       real (length (List.map_filter (\<lambda>e. snd (snd e)) tbl)) = 1 \<and>
     nan_mean (List.map_filter (\<lambda>e. snd (snd e)) tbl) = Some 1 \<and>
     (month_nums chart = [1..<13] \<and> (\<forall>e\<in>set tbl. fst (snd e) \<noteq> None) \<longrightarrow>
        (\<exists>xs. map (\<lambda>e. snd (snd e)) tbl = map Some xs \<and> length xs = 12 \<and> sum_list xs / 12 = 1)) \<and>
     (\<forall>E cols ui view ms sn f.
        chart = chart_df cols view \<and> trend_section E cols (Some mc) ui view = Inr (Trend ms sn f) \<longrightarrow>
        sn = SeasonalIndex tbl)"
proof -
  let ?summary = "seasonal_summary mc chart"
  let ?avgs = "List.map_filter snd ?summary"
  let ?tbl = "map (\<lambda>(m, avg_metric). (m, avg_metric,
        case (avg_metric, Some om) of (Some a, Some om) \<Rightarrow> Some (a / om) | _ \<Rightarrow> None)) ?summary"
  let ?idx = "List.map_filter (\<lambda>e. snd (snd e)) ?tbl"
  from assms(1) have avgs: "?avgs \<noteq> []" and mean: "mean ?avgs = om"
    by (auto simp: nan_mean_def split: if_splits)
  then have ne: "?summary \<noteq> []" by auto
  have si: "seasonal_index mc chart = SeasonalIndex ?tbl"
    using ne assms by (simp add: seasonal_index_def Let_def)
  have months: "map fst ?tbl = month_nums chart"
    by (simp add: seasonal_summary_def o_def case_prod_unfold)
  have sorted: "sorted (map fst ?tbl) \<and> distinct (map fst ?tbl)"
    by (simp only: months month_nums_sorted)
  have mset: "set (map fst ?tbl) = {m. \<exists>r\<in>set chart. \<exists>y d. r ''date'' = Stamp (y, m, d)}"
    by (simp only: months month_nums_set)
  have summ: "map (\<lambda>e. (fst e, fst (snd e))) ?tbl = ?summary"
    by (simp add: o_def case_prod_unfold)
  have avg: "\<forall>e\<in>set ?tbl. \<exists>xs.
        xs = List.map_filter (\<lambda>r. case r mc of Num x \<Rightarrow> Some x | _ \<Rightarrow> None)
               (filter (\<lambda>r. case r ''date'' of Stamp t \<Rightarrow> fst (snd t) = fst e | _ \<Rightarrow> False) chart) \<and>
        fst (snd e) = (if xs = [] then None else Some (sum_list xs / real (length xs)))"
  proof
    fix e assume "e \<in> set ?tbl"
    then have "(fst e, fst (snd e)) \<in> set ?summary" by auto
    then show "\<exists>xs.
        xs = List.map_filter (\<lambda>r. case r mc of Num x \<Rightarrow> Some x | _ \<Rightarrow> None)
               (filter (\<lambda>r. case r ''date'' of Stamp t \<Rightarrow> fst (snd t) = fst e | _ \<Rightarrow> False) chart) \<and>
        fst (snd e) = (if xs = [] then None else Some (sum_list xs / real (length xs)))"
      by (rule seasonal_summary_entry)
  qed
  have acol': "List.map_filter (\<lambda>e. fst (snd e)) ?tbl = ?avgs"
  proof -
    have "List.map_filter (\<lambda>e. fst (snd e)) (map (\<lambda>(m, a). (m, a, g a)) xs) = List.map_filter snd xs"
      for xs :: "(nat \<times> real option) list" and g :: "real option \<Rightarrow> real option"
      by (induction xs) (auto split: option.splits)
    then show ?thesis .
  qed
  have ane: "List.map_filter (\<lambda>e. fst (snd e)) ?tbl \<noteq> []"
    by (simp only: acol' avgs not_False_eq_True)
  have omv: "om = sum_list (List.map_filter (\<lambda>e. fst (snd e)) ?tbl) /
            real (length (List.map_filter (\<lambda>e. fst (snd e)) ?tbl))"
  proof -
    have h: "om = sum_list ?avgs / real (length ?avgs)"
      using mean by (simp only: mean_def)
    show ?thesis unfolding acol' by (rule h)
  qed
  have each: "\<forall>e\<in>set ?tbl. snd (snd e) = map_option (\<lambda>a. a / om) (fst (snd e))"
    by (auto split: option.splits)
  have idx: "?idx = map (\<lambda>a. a / om) ?avgs" by (rule map_filter_index)
  have m1: "mean ?idx = 1" unfolding idx using avgs mean assms(2) by (rule mean_scaled)
  have ine: "?idx \<noteq> []" unfolding idx using avgs by simp
  have m1': "sum_list ?idx / real (length ?idx) = 1"
    using m1 by (simp only: mean_def)
  have one: "nan_mean ?idx = Some 1"
    by (simp only: nan_mean_def ine if_False m1)
  have twelve: "\<exists>xs. map (\<lambda>e. snd (snd e)) ?tbl = map Some xs \<and> length xs = 12 \<and> sum_list xs / 12 = 1"
    if m: "month_nums chart = [1..<13]" and d: "\<forall>e\<in>set ?tbl. fst (snd e) \<noteq> None"
  proof -
    from d each have "\<forall>e\<in>set ?tbl. snd (snd e) \<noteq> None" by auto
    then have col: "map (\<lambda>e. snd (snd e)) ?tbl = map Some ?idx" and len: "length ?idx = length ?tbl"
      using all_defined_column [of ?tbl] by simp_all
    have "length ?tbl = length (month_nums chart)" by (simp add: seasonal_summary_def)
    with m len have l12: "length ?idx = 12" by simp
    with m1 have "sum_list ?idx / 12 = 1" by (simp add: mean_def)
    with col l12 show ?thesis by blast
  qed
  have shown: "\<forall>E cols ui view ms sn f.
        chart = chart_df cols view \<and> trend_section E cols (Some mc) ui view = Inr (Trend ms sn f) \<longrightarrow>
        sn = SeasonalIndex ?tbl"
    using trend_section_seasonal si by metis
  show ?thesis
    apply (rule exI [of _ ?tbl])
    apply (intro conjI)
    subgoal by (rule si)
    subgoal by (rule months)
    subgoal using sorted by (rule conjunct1)
    subgoal using sorted by (rule conjunct2)
    subgoal by (rule mset)
    subgoal by (rule avg)
    subgoal by (rule ane)
    subgoal by (rule omv)
    subgoal by (rule summ)
    subgoal by (rule each)
    subgoal by (rule ine)
    subgoal by (rule m1')
    subgoal by (rule one)
    subgoal using twelve by blast
    subgoal by (rule shown)
    done
qed

lemma demo_chart12_summary:
  "seasonal_summary ''sold_amount'' demo_chart12 =
     [(1, Some 60), (2, Some 60), (3, Some 60), (4, Some 60), (5, Some 60), (6, Some 60),
      (7, Some 180), (8, Some 180), (9, Some 180), (10, Some 180), (11, Some 180), (12, Some 180)]"
proof -
  have m: "month_nums demo_chart12 = [1, 2, 3, 4, 5, 6, 7, 8, 9, 10, 11, 12]"
    by (simp add: month_nums_def stamps_def demo_chart12_def chart_row_def)
  show ?thesis
    by (simp add: seasonal_summary_def m)
       (simp add: demo_chart12_def chart_row_def nums_def nan_mean_def mean_def)
qed

theorem seasonal_index_mean_one_witness:
  "seasonal_index ''sold_amount'' demo_chart12 =
     SeasonalIndex
       [(1, Some 60, Some (1 / 2)), (2, Some 60, Some (1 / 2)), (3, Some 60, Some (1 / 2)),
        (4, Some 60, Some (1 / 2)), (5, Some 60, Some (1 / 2)), (6, Some 60, Some (1 / 2)),
        (7, Some 180, Some (3 / 2)), (8, Some 180, Some (3 / 2)), (9, Some 180, Some (3 / 2)),
        (10, Some 180, Some (3 / 2)), (11, Some 180, Some (3 / 2)), (12, Some 180, Some (3 / 2))] \<and>
   nan_mean (List.map_filter (\<lambda>e. snd (snd e))
       [(1 :: nat, Some (60 :: real), Some (1 / 2 :: real)), (2, Some 60, Some (1 / 2)),
        (3, Some 60, Some (1 / 2)), (4, Some 60, Some (1 / 2)), (5, Some 60, Some (1 / 2)),
        (6, Some 60, Some (1 / 2)), (7, Some 180, Some (3 / 2)), (8, Some 180, Some (3 / 2)),
        (9, Some 180, Some (3 / 2)), (10, Some 180, Some (3 / 2)), (11, Some 180, Some (3 / 2)),
        (12, Some 180, Some (3 / 2))]) = Some 1 \<and>
   List.map_filter (\<lambda>r. case r ''sold_amount'' of Num x \<Rightarrow> Some x | _ \<Rightarrow> None)
     (filter (\<lambda>r. case r ''date'' of Stamp t \<Rightarrow> fst (snd t) = 1 | _ \<Rightarrow> False) demo_chart12) = [40, 80] \<and>
   List.map_filter (\<lambda>r. case r ''sold_amount'' of Num x \<Rightarrow> Some x | _ \<Rightarrow> None)
     (filter (\<lambda>r. case r ''date'' of Stamp t \<Rightarrow> fst (snd t) = 2 | _ \<Rightarrow> False) demo_chart12) = [60]"
proof -
  have om: "nan_mean (List.map_filter snd (seasonal_summary ''sold_amount'' demo_chart12)) = Some 120"
    by (simp add: demo_chart12_summary nan_mean_def mean_def)
  have "(120 :: real) \<noteq> 0" by simp
  from seasonal_index_mean_one [OF om this] obtain tbl where
    si: "seasonal_index ''sold_amount'' demo_chart12 = SeasonalIndex tbl"
    and summ: "map (\<lambda>e. (fst e, fst (snd e))) tbl = seasonal_summary ''sold_amount'' demo_chart12"
    and each: "\<forall>e\<in>set tbl. snd (snd e) = map_option (\<lambda>a. a / 120) (fst (snd e))"
    and one: "nan_mean (List.map_filter (\<lambda>e. snd (snd e)) tbl) = Some 1"
    by blast
  have "tbl = map (\<lambda>p. (fst p, snd p, map_option (\<lambda>a. a / 120) (snd p)))
      (map (\<lambda>e. (fst e, fst (snd e))) tbl)"
    using each by (induction tbl) auto
  then have "tbl = map (\<lambda>p. (fst p, snd p, map_option (\<lambda>a. a / 120) (snd p)))
      (seasonal_summary ''sold_amount'' demo_chart12)"
    by (simp only: summ)
  then have te: "tbl =
       [(1, Some 60, Some (1 / 2)), (2, Some 60, Some (1 / 2)), (3, Some 60, Some (1 / 2)),
        (4, Some 60, Some (1 / 2)), (5, Some 60, Some (1 / 2)), (6, Some 60, Some (1 / 2)),
        (7, Some 180, Some (3 / 2)), (8, Some 180, Some (3 / 2)), (9, Some 180, Some (3 / 2)),
        (10, Some 180, Some (3 / 2)), (11, Some 180, Some (3 / 2)), (12, Some 180, Some (3 / 2))]"
    by (simp add: demo_chart12_summary)
  have jan: "List.map_filter (\<lambda>r. case r ''sold_amount'' of Num x \<Rightarrow> Some x | _ \<Rightarrow> None)
     (filter (\<lambda>r. case r ''date'' of Stamp t \<Rightarrow> fst (snd t) = 1 | _ \<Rightarrow> False) demo_chart12) = [40, 80]"
    by (simp add: demo_chart12_def chart_row_def)
  have feb: "List.map_filter (\<lambda>r. case r ''sold_amount'' of Num x \<Rightarrow> Some x | _ \<Rightarrow> None)
     (filter (\<lambda>r. case r ''date'' of Stamp t \<Rightarrow> fst (snd t) = 2 | _ \<Rightarrow> False) demo_chart12) = [60]"
    by (simp add: demo_chart12_def chart_row_def)
  from si one jan feb show ?thesis unfolding te by (intro conjI)
qed

end
